theory Spec2Isabelle
  imports Complex_Main "HOL-Library.Multiset"
begin

section \<open>Values\<close>

text \<open>
  A request value is absent (\<open>undefined\<close>) or a string. It is falsy when it is absent
  or the empty string; every other string, \<open>''0''\<close> included, is truthy.
\<close>

definition truthy :: "string option \<Rightarrow> bool" where
  "truthy v = (case v of None \<Rightarrow> False | Some s \<Rightarrow> s \<noteq> [])"

subsection \<open>Numbers\<close>

text \<open>
  A Number is a binary64 value: \<open>Num q\<close> is the finite value \<open>q\<close>, beside the two
  infinities and \<open>NaN\<close>. The two zeros are one value: the services never divide by a
  zero (a zero divisor is replaced by 1, and an array they divide by has a length of at
  least 1), and nothing else they do tells the zeros apart.
\<close>

datatype number = Num rat | PosInfinity | NegInfinity | NaN

text \<open>
  The spacing of the binary64 values around a magnitude \<open>a\<close> is the least power of two
  \<open>q\<close>, from \<open>2^-1074\<close> (the subnormal spacing) to \<open>2^971\<close> (the spacing of the largest
  values), with \<open>a < 2^53 * q\<close>. The search halves down from \<open>1\<close>, at most 1074 times,
  for a magnitude below \<open>2^53 = 9007199254740992\<close>, and doubles up from \<open>2\<close>, at most 970
  times, otherwise.
\<close>

primrec quantum_down :: "nat \<Rightarrow> rat \<Rightarrow> rat \<Rightarrow> rat" where
  "quantum_down 0 a q = q"
| "quantum_down (Suc n) a q =
     (if a < 9007199254740992 * (q / 2) then quantum_down n a (q / 2) else q)"

primrec quantum_up :: "nat \<Rightarrow> rat \<Rightarrow> rat \<Rightarrow> rat" where
  "quantum_up 0 a q = q"
| "quantum_up (Suc n) a q =
     (if 9007199254740992 * q \<le> a then quantum_up n a (2 * q) else q)"

definition quantum :: "rat \<Rightarrow> rat" where
  "quantum a =
     (if a < 9007199254740992 then quantum_down 1074 a 1 else quantum_up 970 a 2)"

definition round_half_even :: "rat \<Rightarrow> int" where
  "round_half_even x =
     (let f = \<lfloor>x\<rfloor>; d = x - of_int f
      in if d < 1 / 2 then f else if 1 / 2 < d then f + 1 else if even f then f else f + 1)"

definition round_to :: "rat \<Rightarrow> rat \<Rightarrow> rat" where
  "round_to q x = of_int (round_half_even (x / q)) * q"

text \<open>The least magnitude that is out of range, \<open>2^1024\<close>, written out.\<close>

definition overflow_threshold :: rat where
  "overflow_threshold =
     179769313486231590772930519078902473361797697894230657273430081157732675805500963132708477322407536021120113879871393357658789768814416622492847430639474124377767893424865485276302219601246094119453082952085005768838150682342462881473913110540827237163350510684586298239947245938479716304835356329624224137216"

text \<open>
  Rounding to the nearest binary64 value, ties to the even significand; a result of
  magnitude \<open>2^1024\<close> or more is an infinity.
\<close>

definition or_infinity :: "rat \<Rightarrow> number" where
  "or_infinity y =
     (if overflow_threshold \<le> y then PosInfinity
      else if y \<le> - overflow_threshold then NegInfinity
      else Num y)"

definition to_double :: "rat \<Rightarrow> number" where
  "to_double x = or_infinity (round_to (quantum \<bar>x\<bar>) x)"

text \<open>\<open>x + y\<close>, \<open>x / y\<close> and \<open>x > y\<close> on Numbers.\<close>

fun js_add :: "number \<Rightarrow> number \<Rightarrow> number" where
  "js_add (Num a) (Num b) = to_double (a + b)"
| "js_add NaN y = NaN"
| "js_add x NaN = NaN"
| "js_add PosInfinity NegInfinity = NaN"
| "js_add NegInfinity PosInfinity = NaN"
| "js_add PosInfinity y = PosInfinity"
| "js_add x PosInfinity = PosInfinity"
| "js_add NegInfinity y = NegInfinity"
| "js_add x NegInfinity = NegInfinity"

fun js_div :: "number \<Rightarrow> number \<Rightarrow> number" where
  "js_div (Num a) (Num b) =
     (if b = 0 then (if a = 0 then NaN else if 0 < a then PosInfinity else NegInfinity)
      else to_double (a / b))"
| "js_div NaN y = NaN"
| "js_div x NaN = NaN"
| "js_div (Num a) y = Num 0"
| "js_div PosInfinity (Num b) = (if b < 0 then NegInfinity else PosInfinity)"
| "js_div NegInfinity (Num b) = (if b < 0 then PosInfinity else NegInfinity)"
| "js_div x y = NaN"

fun js_gt :: "number \<Rightarrow> number \<Rightarrow> bool" where
  "js_gt (Num a) (Num b) = (b < a)"
| "js_gt NaN y = False"
| "js_gt x NaN = False"
| "js_gt PosInfinity PosInfinity = False"
| "js_gt PosInfinity y = True"
| "js_gt x PosInfinity = False"
| "js_gt NegInfinity y = False"
| "js_gt x NegInfinity = True"

text \<open>\<open>x || d\<close> on Numbers: zero and \<open>NaN\<close> are the falsy Numbers.\<close>

definition or_default :: "number \<Rightarrow> number \<Rightarrow> number" where
  "or_default x d = (if x = Num 0 \<or> x = NaN then d else x)"

subsection \<open>Identifiers, dates, errors\<close>

text \<open>
  A stored reference is an ObjectId. A value in a filter document is a string, as it
  came with the request, or an ObjectId; a string is never equal to an ObjectId. A date
  is its time value in milliseconds; a Date object built from a string may be an
  Invalid Date, here \<open>None\<close>.
\<close>

datatype objectId = ObjectId string

datatype bson = BString string | BObjectId objectId

type_synonym jsdate = int

datatype js_error = Error string | CastError string

section \<open>Data model (models/analytics.model.js, models/integration.model.js)\<close>

record totals =
  impressions :: number
  clicks :: number
  conversions :: number
  cost :: number

record metrics = totals +
  channel :: string

record analytics = metrics +
  campaignId :: objectId
  companyId :: "objectId option"
  date :: jsdate
  createdAt :: jsdate
  updatedAt :: "jsdate option"

record integration =
  integration_companyId :: objectId
  platform :: string
  accessToken :: "string option"
  refreshToken :: "string option"
  accountId :: "string option"
  integration_status :: string

text \<open>
  The store holds the two collections in their natural order. \<open>failure\<close> is a pending
  fault of the store: while it is set, every query that reaches the store is rejected
  with that error, which the awaiting service passes on to its caller.
\<close>

record store =
  analytics_docs :: "analytics list"
  integration_docs :: "integration list"
  failure :: "js_error option"

section \<open>What the services take from their environment\<close>

text \<open>
  The language and the libraries, which are not part of the repository:
  \<^item> \<open>castObjectId\<close>: the cast of a string to the schema's ObjectId type, which the
    model layer applies to the filter of \<open>find\<close>; \<open>None\<close> when the string is not one;
  \<^item> \<open>newDate\<close>: the time value of \<open>new Date(s)\<close>, \<open>None\<close> for an Invalid Date;
  \<^item> \<open>toFixed\<close>: \<open>x.toFixed(2)\<close>;
  \<^item> \<open>sortByDate\<close>: the store's \<open>sort({date: 1})\<close> and \<open>sort({date: -1})\<close>, which
    leave the order of equal dates open;
  \<^item> \<open>invalidDateTime\<close>: the instant the driver writes for an Invalid Date in an
    aggregation pipeline, which is sent as it is.
\<close>

datatype direction = Ascending | Descending

record env =
  castObjectId :: "string \<Rightarrow> objectId option"
  newDate :: "string \<Rightarrow> jsdate option"
  toFixed :: "number \<Rightarrow> string"
  sortByDate :: "direction \<Rightarrow> analytics list \<Rightarrow> analytics list"
  invalidDateTime :: jsdate

section \<open>Store queries\<close>

text \<open>
  The filter document built by the services: each field is a constraint or absent;
  \<open>q_date\<close> holds the pair \<open>($gte, $lte)\<close> of Date objects.
\<close>

record query =
  q_companyId :: "bson option"
  q_campaignId :: "bson option"
  q_date :: "(jsdate option \<times> jsdate option) option"

definition empty_query :: query where
  "empty_query = \<lparr>q_companyId = None, q_campaignId = None, q_date = None\<rparr>"

definition time_of :: "env \<Rightarrow> jsdate option \<Rightarrow> jsdate" where
  "time_of e d = (case d of None \<Rightarrow> invalidDateTime e | Some t \<Rightarrow> t)"

text \<open>
  A document matches when each constraint of the filter holds of it. The stored
  references are ObjectIds, so a constraint that is a string holds of no document.
\<close>

definition matches :: "env \<Rightarrow> query \<Rightarrow> analytics \<Rightarrow> bool" where
  "matches e q r =
     ((case q_companyId q of
         None \<Rightarrow> True
       | Some v \<Rightarrow> (case companyId r of None \<Rightarrow> False | Some c \<Rightarrow> v = BObjectId c)) \<and>
      (case q_campaignId q of None \<Rightarrow> True | Some v \<Rightarrow> v = BObjectId (campaignId r)) \<and>
      (case q_date q of
         None \<Rightarrow> True
       | Some (lo, hi) \<Rightarrow> time_of e lo \<le> date r \<and> date r \<le> time_of e hi))"

text \<open>
  The cast of a filter to the schema, applied by \<open>find\<close> before the query is sent: the
  fields in the order they were set, \<open>campaignId\<close> before \<open>date\<close>. A string that is not
  an ObjectId and an Invalid Date raise a CastError naming the path.
\<close>

definition cast_id :: "env \<Rightarrow> string \<Rightarrow> bson option \<Rightarrow> js_error + bson option" where
  "cast_id e path v =
     (case v of
        None \<Rightarrow> Inr None
      | Some (BObjectId i) \<Rightarrow> Inr (Some (BObjectId i))
      | Some (BString s) \<Rightarrow>
          (case castObjectId e s of
             None \<Rightarrow> Inl (CastError path)
           | Some i \<Rightarrow> Inr (Some (BObjectId i))))"

definition cast_date ::
  "(jsdate option \<times> jsdate option) option \<Rightarrow> js_error + (jsdate option \<times> jsdate option) option" where
  "cast_date d =
     (case d of
        None \<Rightarrow> Inr None
      | Some (lo, hi) \<Rightarrow>
          if lo = None \<or> hi = None then Inl (CastError ''date'') else Inr (Some (lo, hi)))"

definition cast_filter :: "env \<Rightarrow> query \<Rightarrow> js_error + query" where
  "cast_filter e q =
     (case cast_id e ''companyId'' (q_companyId q) of
        Inl err \<Rightarrow> Inl err
      | Inr company \<Rightarrow>
          (case cast_id e ''campaignId'' (q_campaignId q) of
             Inl err \<Rightarrow> Inl err
           | Inr campaign \<Rightarrow>
               (case cast_date (q_date q) of
                  Inl err \<Rightarrow> Inl err
                | Inr d \<Rightarrow>
                    Inr \<lparr>q_companyId = company, q_campaignId = campaign, q_date = d\<rparr>)))"

text \<open>
  \<open>Analytics.find(query)\<close>: the cast, then the matching documents; the store is returned
  as it was.
\<close>

definition Analytics_find :: "env \<Rightarrow> query \<Rightarrow> store \<Rightarrow> (js_error + analytics list) \<times> store" where
  "Analytics_find e q st =
     (case cast_filter e q of
        Inl err \<Rightarrow> (Inl err, st)
      | Inr q' \<Rightarrow>
          (case failure st of
             Some err \<Rightarrow> (Inl err, st)
           | None \<Rightarrow> (Inr (filter (matches e q') (analytics_docs st)), st)))"

text \<open>\<open>.limit(n)\<close> on a result.\<close>

definition limit :: "nat \<Rightarrow> 'a list \<Rightarrow> 'a list" where
  "limit n xs = take n xs"

text \<open>
  \<open>Analytics.aggregate(pipeline)\<close>: the pipeline, which is not cast, is the composition
  of its stages, run over the collection.
\<close>

definition Analytics_aggregate ::
  "(analytics list \<Rightarrow> 'a list) \<Rightarrow> store \<Rightarrow> (js_error + 'a list) \<times> store" where
  "Analytics_aggregate pipeline st =
     (case failure st of
        Some err \<Rightarrow> (Inl err, st)
      | None \<Rightarrow> (Inr (pipeline (analytics_docs st)), st))"

definition match_stage :: "env \<Rightarrow> query \<Rightarrow> analytics list \<Rightarrow> analytics list" where
  "match_stage e q xs = filter (matches e q) xs"

text \<open>The \<open>$sum\<close> accumulator: binary64 addition from 0, in the order of the documents.\<close>

definition db_sum :: "number list \<Rightarrow> number" where
  "db_sum xs = foldl js_add (Num 0) xs"

record group_doc =
  group_id :: "string option"
  totalImpressions :: number
  totalClicks :: number
  totalConversions :: number
  totalCost :: number

text \<open>\<open>$group\<close> with \<open>_id: null\<close>: one document for a non-empty input, none for an empty one.\<close>

definition group_all :: "analytics list \<Rightarrow> group_doc list" where
  "group_all xs =
     (if xs = [] then []
      else [\<lparr>group_id = None,
             totalImpressions = db_sum (map impressions xs),
             totalClicks = db_sum (map clicks xs),
             totalConversions = db_sum (map conversions xs),
             totalCost = db_sum (map cost xs)\<rparr>])"

text \<open>
  \<open>$group\<close> with \<open>_id: "$channel"\<close>: each document is added to the group of its channel,
  a new group being opened, with its sums at 0, for a channel not seen before. Groups
  come out in the order of first occurrence.
\<close>

definition new_group :: "analytics \<Rightarrow> group_doc" where
  "new_group r =
     \<lparr>group_id = Some (channel r),
      totalImpressions = js_add (Num 0) (impressions r),
      totalClicks = js_add (Num 0) (clicks r),
      totalConversions = js_add (Num 0) (conversions r),
      totalCost = js_add (Num 0) (cost r)\<rparr>"

definition merge_group :: "group_doc \<Rightarrow> analytics \<Rightarrow> group_doc" where
  "merge_group g r =
     g\<lparr>totalImpressions := js_add (totalImpressions g) (impressions r),
       totalClicks := js_add (totalClicks g) (clicks r),
       totalConversions := js_add (totalConversions g) (conversions r),
       totalCost := js_add (totalCost g) (cost r)\<rparr>"

fun add_to_group :: "analytics \<Rightarrow> group_doc list \<Rightarrow> group_doc list" where
  "add_to_group r [] = [new_group r]"
| "add_to_group r (g # gs) =
     (if group_id g = Some (channel r) then merge_group g r # gs
      else g # add_to_group r gs)"

definition group_by_channel :: "analytics list \<Rightarrow> group_doc list" where
  "group_by_channel xs = fold add_to_group xs []"

text \<open>\<open>$project\<close> of the channel breakdown: \<open>channel: "$_id"\<close> and the four totals renamed.\<close>

definition project_channel :: "group_doc list \<Rightarrow> metrics list" where
  "project_channel gs =
     map (\<lambda>g. \<lparr>impressions = totalImpressions g,
                clicks = totalClicks g,
                conversions = totalConversions g,
                cost = totalCost g,
                channel = (case group_id g of None \<Rightarrow> [] | Some c \<Rightarrow> c)\<rparr>) gs"

section \<open>Analytics service (services/analytics.service.js)\<close>

record params =
  p_companyId :: "string option"
  p_campaignId :: "string option"
  p_start :: "string option"
  p_end :: "string option"

text \<open>
  \<open>if (start && end) query.date = {$gte: new Date(start), $lte: new Date(end)}\<close>
\<close>

definition with_date :: "env \<Rightarrow> string option \<Rightarrow> string option \<Rightarrow> query \<Rightarrow> query" where
  "with_date e start end q =
     (case (start, end) of
        (Some s, Some t) \<Rightarrow>
          if truthy start \<and> truthy end then q\<lparr>q_date := Some (newDate e s, newDate e t)\<rparr>
          else q
      | _ \<Rightarrow> q)"

text \<open>\<open>if (companyId) query.companyId = companyId\<close>: the string of the request is set.\<close>

definition with_companyId :: "string option \<Rightarrow> query \<Rightarrow> query" where
  "with_companyId c q = (if truthy c then q\<lparr>q_companyId := map_option BString c\<rparr> else q)"

definition with_campaignId :: "string option \<Rightarrow> query \<Rightarrow> query" where
  "with_campaignId c q = (if truthy c then q\<lparr>q_campaignId := map_option BString c\<rparr> else q)"

definition getOverview :: "env \<Rightarrow> params \<Rightarrow> store \<Rightarrow> (js_error + totals) \<times> store" where
  "getOverview e ps st =
     (let query = with_date e (p_start ps) (p_end ps)
                    (with_companyId (p_companyId ps) empty_query)
      in case Analytics_aggregate (group_all \<circ> match_stage e query) st of
           (Inl err, st') \<Rightarrow> (Inl err, st')
         | (Inr aggregation, st') \<Rightarrow>
             (case aggregation of
                [] \<Rightarrow>
                  (Inr \<lparr>impressions = Num 0, clicks = Num 0, conversions = Num 0,
                         cost = Num 0\<rparr>, st')
              | result # _ \<Rightarrow>
                  (Inr \<lparr>impressions = or_default (totalImpressions result) (Num 0),
                         clicks = or_default (totalClicks result) (Num 0),
                         conversions = or_default (totalConversions result) (Num 0),
                         cost = or_default (totalCost result) (Num 0)\<rparr>, st')))"

text \<open>
  \<open>getCampaignAnalytics\<close> returns \<open>null\<close> (here \<open>None\<close>) for a falsy campaign identifier,
  otherwise the array of matching documents sorted by date.
\<close>

definition getCampaignAnalytics ::
  "env \<Rightarrow> params \<Rightarrow> store \<Rightarrow> (js_error + analytics list option) \<times> store" where
  "getCampaignAnalytics e ps st =
     (if \<not> truthy (p_campaignId ps) then (Inr None, st)
      else
        let query = with_date e (p_start ps) (p_end ps)
                      (empty_query\<lparr>q_campaignId := map_option BString (p_campaignId ps)\<rparr>)
        in case Analytics_find e query st of
             (Inl err, st') \<Rightarrow> (Inl err, st')
           | (Inr docs, st') \<Rightarrow> (Inr (Some (sortByDate e Ascending docs)), st'))"

definition getChannelAnalytics ::
  "env \<Rightarrow> params \<Rightarrow> store \<Rightarrow> (js_error + metrics list) \<times> store" where
  "getChannelAnalytics e ps st =
     (let query = with_date e (p_start ps) (p_end ps)
                    (with_campaignId (p_campaignId ps)
                      (with_companyId (p_companyId ps) empty_query))
      in Analytics_aggregate (project_channel \<circ> group_by_channel \<circ> match_stage e query) st)"

text \<open>A value interpolated into a template literal.\<close>

definition interpolate :: "string option \<Rightarrow> string" where
  "interpolate v = (case v of None \<Rightarrow> ''undefined'' | Some s \<Rightarrow> s)"

text \<open>
  \<open>recentData.reduce((acc, item) => acc + item.cost / (item.clicks || 1), 0) / recentData.length\<close>
\<close>

definition averageCPC :: "analytics list \<Rightarrow> number" where
  "averageCPC recentData =
     js_div
       (foldl (\<lambda>acc item. js_add acc (js_div (cost item) (or_default (clicks item) (Num 1))))
          (Num 0) recentData)
       (Num (of_nat (length recentData)))"

definition getRecommendations ::
  "env \<Rightarrow> string option \<Rightarrow> store \<Rightarrow> (js_error + string list) \<times> store" where
  "getRecommendations e cid st =
     (if \<not> truthy cid
      then (Inr [''Consider shifting budget to high-conversion channels.'',
                 ''Explore retargeting if conversions are below target.''], st)
      else
        case Analytics_find e (empty_query\<lparr>q_campaignId := map_option BString cid\<rparr>) st of
          (Inl err, st') \<Rightarrow> (Inl err, st')
        | (Inr docs, st') \<Rightarrow>
            (let recentData = limit 7 (sortByDate e Descending docs)
             in if recentData = []
                then (Inr [''No recent analytics data available for this campaign.''], st')
                else if js_gt (averageCPC recentData) (Num 2)
                then (Inr [''Campaign '' @ interpolate cid @ '' has a high average CPC of $'' @
                           toFixed e (averageCPC recentData) @
                           ''. \<newline>       Consider refining keywords or targeting to reduce costs.''],
                      st')
                else (Inr [''Campaign '' @ interpolate cid @
                           '' is performing well with an average CPC of $'' @
                           toFixed e (averageCPC recentData) @
                           ''. \<newline>       Consider increasing budget or expanding audience.''],
                      st')))"

section \<open>Integration service (services/integration.service.js)\<close>

definition Integration_find ::
  "env \<Rightarrow> string \<Rightarrow> store \<Rightarrow> (js_error + integration list) \<times> store" where
  "Integration_find e c st =
     (case castObjectId e c of
        None \<Rightarrow> (Inl (CastError ''companyId''), st)
      | Some i \<Rightarrow>
          (case failure st of
             Some err \<Rightarrow> (Inl err, st)
           | None \<Rightarrow> (Inr (filter (\<lambda>d. integration_companyId d = i) (integration_docs st)), st)))"

definition getIntegrations ::
  "env \<Rightarrow> string option \<Rightarrow> store \<Rightarrow> (js_error + integration list) \<times> store" where
  "getIntegrations e c st =
     (if \<not> truthy c
      then (Inl (Error ''companyId is required to retrieve integrations.''), st)
      else Integration_find e (interpolate c) st)"

section \<open>Analytics controller (controllers/analytics.controller.js)\<close>

record request =
  req_params :: params
  req_query :: params

record 'a response =
  status :: nat
  success :: bool
  data :: "'a option"
  message :: "string option"

definition ok :: "'a \<Rightarrow> 'a response" where
  "ok d = \<lparr>status = 200, success = True, data = Some d, message = None\<rparr>"

definition fail :: "nat \<Rightarrow> string \<Rightarrow> 'a response" where
  "fail code m = \<lparr>status = code, success = False, data = None, message = Some m\<rparr>"

definition no_params :: params where
  "no_params = \<lparr>p_companyId = None, p_campaignId = None, p_start = None, p_end = None\<rparr>"

definition controller_getOverview ::
  "env \<Rightarrow> request \<Rightarrow> store \<Rightarrow> totals response \<times> store" where
  "controller_getOverview e req st =
     (case getOverview e
             (no_params\<lparr>p_companyId := p_companyId (req_query req),
                        p_start := p_start (req_query req),
                        p_end := p_end (req_query req)\<rparr>) st of
        (Inr overviewData, st') \<Rightarrow> (ok overviewData, st')
      | (Inl error, st') \<Rightarrow> (fail 500 ''Failed to retrieve analytics overview.'', st'))"

definition controller_getCampaignAnalytics ::
  "env \<Rightarrow> request \<Rightarrow> store \<Rightarrow> analytics list response \<times> store" where
  "controller_getCampaignAnalytics e req st =
     (case getCampaignAnalytics e
             (no_params\<lparr>p_campaignId := p_campaignId (req_params req),
                        p_start := p_start (req_query req),
                        p_end := p_end (req_query req)\<rparr>) st of
        (Inr campaignMetrics, st') \<Rightarrow>
          (case campaignMetrics of
             None \<Rightarrow>
               (fail 404 (''No analytics found for campaign ID: '' @
                            interpolate (p_campaignId (req_params req))), st')
           | Some ms \<Rightarrow> (ok ms, st'))
      | (Inl error, st') \<Rightarrow> (fail 500 ''Failed to retrieve campaign analytics.'', st'))"

definition controller_getChannelAnalytics ::
  "env \<Rightarrow> request \<Rightarrow> store \<Rightarrow> metrics list response \<times> store" where
  "controller_getChannelAnalytics e req st =
     (case getChannelAnalytics e
             (no_params\<lparr>p_companyId := p_companyId (req_query req),
                        p_campaignId := p_campaignId (req_query req),
                        p_start := p_start (req_query req),
                        p_end := p_end (req_query req)\<rparr>) st of
        (Inr channelData, st') \<Rightarrow> (ok channelData, st')
      | (Inl error, st') \<Rightarrow> (fail 500 ''Failed to retrieve channel analytics.'', st'))"

definition controller_getRecommendations ::
  "env \<Rightarrow> request \<Rightarrow> store \<Rightarrow> string list response \<times> store" where
  "controller_getRecommendations e req st =
     (case getRecommendations e (p_campaignId (req_query req)) st of
        (Inr recommendations, st') \<Rightarrow> (ok recommendations, st')
      | (Inl error, st') \<Rightarrow> (fail 500 ''Failed to retrieve analytics recommendations.'', st'))"

section \<open>Concrete values for the examples\<close>

text \<open>
  \<open>toFixed2\<close> is \<open>x.toFixed(2)\<close> for magnitudes below \<open>10^21\<close>: the sign, then the nearest
  multiple of one hundredth to the exact value of the Number (the larger one on a tie).
\<close>

definition digit :: "nat \<Rightarrow> char" where
  "digit n = ''0123456789'' ! (n mod 10)"

function show_nat :: "nat \<Rightarrow> string" where
  "show_nat n = (if n < 10 then [digit n] else show_nat (n div 10) @ [digit n])"
  by pat_completeness auto
termination
  by (relation "measure id") auto

definition toFixed2 :: "number \<Rightarrow> string" where
  "toFixed2 x =
     (case x of
        NaN \<Rightarrow> ''NaN''
      | PosInfinity \<Rightarrow> ''Infinity''
      | NegInfinity \<Rightarrow> ''-Infinity''
      | Num q \<Rightarrow>
          (let n = nat \<lfloor>\<bar>q\<bar> * 100 + 1 / 2\<rfloor>
           in (if q < 0 then ''-'' else []) @ show_nat (n div 100) @ ''.'' @
              [digit (n div 10), digit n]))"

text \<open>A string of 24 hexadecimal digits is an ObjectId.\<close>

definition example_cast :: "string \<Rightarrow> objectId option" where
  "example_cast s =
     (if length s = 24 \<and> list_all (\<lambda>c. c \<in> set ''0123456789abcdef'') s
      then Some (ObjectId s) else None)"

text \<open>A calendar with two named days; every other string is an Invalid Date.\<close>

definition example_newDate :: "string \<Rightarrow> jsdate option" where
  "example_newDate s =
     (if s = ''2024-01-01'' then Some 1704067200000
      else if s = ''2024-01-31'' then Some 1706659200000
      else None)"

text \<open>A sort that keeps equal dates in the order of the collection.\<close>

definition example_sort :: "direction \<Rightarrow> analytics list \<Rightarrow> analytics list" where
  "example_sort d xs =
     (case d of Ascending \<Rightarrow> sort_key date xs | Descending \<Rightarrow> sort_key (\<lambda>r. - date r) xs)"

definition example_env :: env where
  "example_env =
     \<lparr>castObjectId = example_cast, newDate = example_newDate, toFixed = toFixed2,
      sortByDate = example_sort, invalidDateTime = 0\<rparr>"

definition id_c1 :: string where "id_c1 = ''65a0000000000000000000c1''"
definition id_c2 :: string where "id_c2 = ''65a0000000000000000000c2''"
definition id_c3 :: string where "id_c3 = ''65a0000000000000000000c3''"
definition id_co1 :: string where "id_co1 = ''65a00000000000000000c001''"
definition id_co2 :: string where "id_co2 = ''65a00000000000000000c002''"

definition example_record ::
  "string \<Rightarrow> string option \<Rightarrow> jsdate \<Rightarrow> string \<Rightarrow> rat \<Rightarrow> rat \<Rightarrow> rat \<Rightarrow> rat \<Rightarrow> analytics" where
  "example_record cmp cpy d ch i c v k =
     \<lparr>impressions = Num i, clicks = Num c, conversions = Num v, cost = Num k, channel = ch,
      campaignId = ObjectId cmp, companyId = map_option ObjectId cpy, date = d,
      createdAt = d, updatedAt = None\<rparr>"

text \<open>
  Five records, not in the order of their dates: 3 January, 1 February, 1 January,
  2 January and 4 January 2024.
\<close>

definition example_docs :: "analytics list" where
  "example_docs =
     [example_record id_c1 (Some id_co1) 1704240000000 ''Facebook'' 100 1 0 2,
      example_record id_c1 (Some id_co1) 1706745600000 ''Facebook'' 10 5 1 30,
      example_record id_c1 (Some id_co1) 1704067200000 ''GoogleAds'' 100 2 0 2,
      example_record id_c1 (Some id_co2) 1704153600000 ''Facebook'' 100 0 0 2,
      example_record id_c2 None 1704326400000 ''Facebook'' 50 1 1 2]"

definition example_store :: store where
  "example_store = \<lparr>analytics_docs = example_docs, integration_docs = [], failure = None\<rparr>"

definition failing_store :: store where
  "failing_store = example_store\<lparr>failure := Some (Error ''connection lost'')\<rparr>"

definition january :: params where
  "january = no_params\<lparr>p_start := Some ''2024-01-01'', p_end := Some ''2024-01-31''\<rparr>"

definition backwards :: params where
  "backwards = no_params\<lparr>p_start := Some ''2024-01-31'', p_end := Some ''2024-01-01''\<rparr>"

text \<open>
  Eight records of one campaign on eight consecutive days, the oldest first: the oldest
  cost 100 for 1 click; of the seven others six cost 2 for 1 click and one cost 2 for no
  click.
\<close>

definition week_docs :: "analytics list" where
  "week_docs =
     map (\<lambda>(d, c, k). example_record id_c2 None (1704067200000 + 86400000 * d) ''Facebook'' 10 c 0 k)
       [(0, 1, 100), (1, 1, 2), (2, 1, 2), (3, 0, 2), (4, 1, 2), (5, 1, 2), (6, 1, 2), (7, 1, 2)]"

definition week_store :: store where
  "week_store = \<lparr>analytics_docs = week_docs, integration_docs = [], failure = None\<rparr>"

text \<open>
  Seven records of one campaign with clicks 1, 2, 0, 1, 1, 1, 1 and cost 2 each, on seven
  consecutive days.
\<close>

definition sevens_docs :: "analytics list" where
  "sevens_docs =
     map (\<lambda>(d, c). example_record id_c2 None (1704067200000 + 86400000 * d) ''Facebook'' 10 c 0 2)
       [(0, 1), (1, 2), (2, 0), (3, 1), (4, 1), (5, 1), (6, 1)]"

definition sevens_store :: store where
  "sevens_store = \<lparr>analytics_docs = sevens_docs, integration_docs = [], failure = None\<rparr>"

text \<open>Three records of one campaign with costs per click 1, 10/3 and 5/3.\<close>

definition thirds_docs :: "analytics list" where
  "thirds_docs =
     [example_record id_c3 None 1704067200000 ''Facebook'' 10 3 0 5,
      example_record id_c3 None 1704153600000 ''Facebook'' 10 3 0 10,
      example_record id_c3 None 1704240000000 ''Facebook'' 10 1 0 1]"

definition thirds_store :: store where
  "thirds_store = \<lparr>analytics_docs = thirds_docs, integration_docs = [], failure = None\<rparr>"

text \<open>Two records with impressions \<open>2^53\<close> and 1.\<close>

definition big_docs :: "analytics list" where
  "big_docs =
     [example_record id_c1 None 1704067200000 ''Facebook'' 9007199254740992 0 0 0,
      example_record id_c1 None 1704153600000 ''Facebook'' 1 0 0 0]"

definition big_store :: store where
  "big_store = \<lparr>analytics_docs = big_docs, integration_docs = [], failure = None\<rparr>"

text \<open>Three records with impressions \<open>2^53\<close>, 2 and 1, the second on another channel.\<close>

definition skew_docs :: "analytics list" where
  "skew_docs =
     [example_record id_c1 None 1704067200000 ''Facebook'' 9007199254740992 0 0 0,
      example_record id_c1 None 1704153600000 ''GoogleAds'' 2 0 0 0,
      example_record id_c1 None 1704240000000 ''Facebook'' 1 0 0 0]"

definition skew_store :: store where
  "skew_store = \<lparr>analytics_docs = skew_docs, integration_docs = [], failure = None\<rparr>"

section \<open>Vocabulary of the properties\<close>

text \<open>
  A filter value is given when it is a non-empty string; a date range is given when both
  of its bounds are. A record is in the filter of a dimension that is not given. The
  record's company is the given one when the string denotes the ObjectId it stores.
\<close>

definition in_company :: "env \<Rightarrow> string option \<Rightarrow> analytics \<Rightarrow> bool" where
  "in_company e company r =
     (case company of
        None \<Rightarrow> True
      | Some c \<Rightarrow>
          c \<noteq> [] \<longrightarrow>
            (case castObjectId e c of None \<Rightarrow> False | Some i \<Rightarrow> companyId r = Some i))"

definition in_range :: "env \<Rightarrow> string option \<Rightarrow> string option \<Rightarrow> analytics \<Rightarrow> bool" where
  "in_range e start end r =
     (case (start, end) of
        (Some s, Some t) \<Rightarrow>
          s \<noteq> [] \<and> t \<noteq> [] \<longrightarrow>
            (case (newDate e s, newDate e t) of
               (Some lo, Some hi) \<Rightarrow> lo \<le> date r \<and> date r \<le> hi
             | _ \<Rightarrow> False)
      | _ \<Rightarrow> True)"

text \<open>The bounds of a given date range are dates.\<close>

definition bounds_parse :: "env \<Rightarrow> string option \<Rightarrow> string option \<Rightarrow> bool" where
  "bounds_parse e start end =
     (case (start, end) of
        (Some s, Some t) \<Rightarrow> s \<noteq> [] \<and> t \<noteq> [] \<longrightarrow> newDate e s \<noteq> None \<and> newDate e t \<noteq> None
      | _ \<Rightarrow> True)"

text \<open>
  The arithmetic sum of a field over records. A count is a non-negative integer; a field
  is exact over records when its values are counts whose sum is at most \<open>2^53\<close>, so that
  every partial sum is a binary64 value.
\<close>

definition value_of :: "number \<Rightarrow> rat" where
  "value_of x = (case x of Num q \<Rightarrow> q | _ \<Rightarrow> 0)"

definition arithmetic_sum :: "('a \<Rightarrow> number) \<Rightarrow> 'a list \<Rightarrow> rat" where
  "arithmetic_sum f xs = sum_list (map (\<lambda>r. value_of (f r)) xs)"

definition is_count :: "number \<Rightarrow> bool" where
  "is_count x = (case x of Num q \<Rightarrow> 0 \<le> q \<and> of_int \<lfloor>q\<rfloor> = q | _ \<Rightarrow> False)"

definition exact_field :: "('a \<Rightarrow> number) \<Rightarrow> 'a list \<Rightarrow> bool" where
  "exact_field f xs = (list_all (\<lambda>r. is_count (f r)) xs \<and> arithmetic_sum f xs \<le> 2 ^ 53)"

text \<open>The store's sort returns the records it was given, in the order asked for.\<close>

definition sorts :: "env \<Rightarrow> direction \<Rightarrow> analytics list \<Rightarrow> bool" where
  "sorts e d xs =
     (mset (sortByDate e d xs) = mset xs \<and>
      (case d of
         Ascending \<Rightarrow> sorted_wrt (\<lambda>a b. date a \<le> date b) (sortByDate e d xs)
       | Descending \<Rightarrow> sorted_wrt (\<lambda>a b. date b \<le> date a) (sortByDate e d xs)))"

text \<open>The shape \<open>{success: false, message}\<close> of an error response.\<close>

definition error_shape :: "'a response \<Rightarrow> bool" where
  "error_shape r = (\<not> success r \<and> message r \<noteq> None \<and> data r = None)"

section \<open>Binary64 arithmetic on counts\<close>

lemma overflow_threshold_eq: "overflow_threshold = 2 ^ 1024"
  by (simp add: overflow_threshold_def)

lemma quantum_down_form: "\<exists>i. quantum_down n a q = q / 2 ^ i"
proof (induction n arbitrary: q)
  case 0
  have "quantum_down 0 a q = q / 2 ^ 0" by simp
  then show ?case by blast
next
  case (Suc n)
  show ?case
  proof (cases "a < 9007199254740992 * (q / 2)")
    case True
    from Suc.IH [of "q / 2"] obtain i where "quantum_down n a (q / 2) = q / 2 / 2 ^ i"
      by blast
    with True have "quantum_down (Suc n) a q = q / 2 ^ Suc i"
      by simp
    then show ?thesis by blast
  next
    case False
    then have "quantum_down (Suc n) a q = q / 2 ^ 0" by simp
    then show ?thesis by blast
  qed
qed

lemma quantum_up_stop:
  "0 < n \<Longrightarrow> \<not> 9007199254740992 * q \<le> a \<Longrightarrow> quantum_up n a q = q"
  by (cases n) simp_all

lemma round_half_even_of_int: "round_half_even (of_int m) = m"
  by (simp add: round_half_even_def)

lemma round_to_exact:
  assumes "q \<noteq> 0" and "x / q = of_int m"
  shows "round_to q x = x"
proof -
  have "round_to q x = of_int m * q"
    by (simp add: round_to_def assms(2) round_half_even_of_int)
  also have "\<dots> = x"
    using assms by (simp add: field_simps)
  finally show ?thesis .
qed

lemma or_infinity_small:
  assumes "\<bar>y\<bar> \<le> 9007199254740992"
  shows "or_infinity y = Num y"
proof -
  from assms have "y \<le> 9007199254740992" and "- 9007199254740992 \<le> y"
    by (simp_all add: abs_le_iff)
  then have "\<not> overflow_threshold \<le> y" and "\<not> y \<le> - overflow_threshold"
    by (simp_all add: overflow_threshold_def)
  then show ?thesis
    by (simp add: or_infinity_def)
qed

lemma to_double_of_nat:
  assumes "n \<le> 9007199254740992"
  shows "to_double (of_nat n) = Num (of_nat n)"
proof -
  let ?x = "of_nat n :: rat"
  have small: "\<bar>?x\<bar> \<le> 9007199254740992"
    using assms by (simp add: of_nat_le_iff [of n 9007199254740992, where ?'a = rat, simplified])
  have "round_to (quantum \<bar>?x\<bar>) ?x = ?x"
  proof (cases "n < 9007199254740992")
    case True
    then have "?x < 9007199254740992"
      by (simp add: of_nat_less_iff [of n 9007199254740992, where ?'a = rat, simplified])
    then have "quantum \<bar>?x\<bar> = quantum_down 1074 ?x 1"
      by (simp add: quantum_def)
    moreover obtain i where "quantum_down 1074 ?x 1 = 1 / 2 ^ i"
      using quantum_down_form by blast
    ultimately have q: "quantum \<bar>?x\<bar> = 1 / 2 ^ i" by simp
    show ?thesis
      unfolding q by (rule round_to_exact [where m = "int n * 2 ^ i"]) simp_all
  next
    case False
    with assms have n: "n = 9007199254740992" by simp
    have "quantum_up 970 (9007199254740992 :: rat) 2 = 2"
      by (rule quantum_up_stop) simp_all
    then have "quantum \<bar>?x\<bar> = 2"
      by (simp add: n quantum_def)
    moreover have "?x / 2 = of_int 4503599627370496"
      by (simp add: n)
    ultimately show ?thesis
      by (simp add: round_to_exact)
  qed
  then show ?thesis
    using small by (simp add: to_double_def or_infinity_small)
qed

lemma is_count_iff: "is_count x \<longleftrightarrow> (\<exists>n. x = Num (of_nat n))"
proof
  assume "is_count x"
  then obtain q where x: "x = Num q" and q: "0 \<le> q" "of_int \<lfloor>q\<rfloor> = q"
    by (auto simp: is_count_def split: number.splits)
  from q have "q = of_nat (nat \<lfloor>q\<rfloor>)"
    by (metis floor_mono floor_zero of_int_of_nat_eq of_nat_nat)
  with x show "\<exists>n. x = Num (of_nat n)" by blast
next
  assume "\<exists>n. x = Num (of_nat n)"
  then show "is_count x" by (auto simp: is_count_def)
qed

lemma js_add_nat:
  assumes "a + b \<le> 9007199254740992"
  shows "js_add (Num (of_nat a)) (Num (of_nat b)) = Num (of_nat (a + b))"
  using to_double_of_nat [OF assms] by simp

lemma value_of_nat [simp]: "value_of (Num (of_nat n)) = of_nat n"
  by (simp add: value_of_def)

lemma value_of_count_nonneg: "is_count x \<Longrightarrow> 0 \<le> value_of x"
  by (auto simp: is_count_iff)

lemma arithmetic_sum_nonneg:
  "list_all (\<lambda>r. is_count (f r)) xs \<Longrightarrow> 0 \<le> arithmetic_sum f xs"
  by (induction xs) (auto simp: arithmetic_sum_def value_of_count_nonneg)

lemma arithmetic_sum_simps [simp]:
  "arithmetic_sum f [] = 0"
  "arithmetic_sum f (x # xs) = value_of (f x) + arithmetic_sum f xs"
  by (simp_all add: arithmetic_sum_def)

text \<open>Adding two counts whose sum is at most \<open>2^53\<close> is exact.\<close>

lemma js_add_count:
  assumes "is_count x" and "is_count y" and "value_of x + value_of y \<le> 2 ^ 53"
  shows "js_add x y = Num (value_of x + value_of y)" and "is_count (js_add x y)"
proof -
  from assms(1,2) obtain a b where x: "x = Num (of_nat a)" and y: "y = Num (of_nat b)"
    by (auto simp: is_count_iff)
  from assms(3) have "(of_nat (a + b) :: rat) \<le> of_nat 9007199254740992"
    by (simp add: x y)
  then have "a + b \<le> 9007199254740992"
    by (simp only: of_nat_le_iff)
  then have sum: "js_add x y = Num (of_nat (a + b))"
    unfolding x y by (rule js_add_nat)
  then show "js_add x y = Num (value_of x + value_of y)"
    by (simp add: x y)
  show "is_count (js_add x y)"
    unfolding sum is_count_iff by blast
qed

lemma foldl_js_add_count:
  assumes "is_count acc" and "list_all (\<lambda>r. is_count (f r)) xs"
    and "value_of acc + arithmetic_sum f xs \<le> 2 ^ 53"
  shows "foldl js_add acc (map f xs) = Num (value_of acc + arithmetic_sum f xs)"
  using assms
proof (induction xs arbitrary: acc)
  case Nil
  then show ?case by (auto simp: is_count_iff)
next
  case (Cons x xs)
  from Cons.prems have x: "is_count (f x)" and rest: "list_all (\<lambda>r. is_count (f r)) xs"
    by simp_all
  have "0 \<le> arithmetic_sum f xs"
    using rest by (rule arithmetic_sum_nonneg)
  with Cons.prems(3) have step: "value_of acc + value_of (f x) \<le> 2 ^ 53"
    by simp
  have add: "js_add acc (f x) = Num (value_of acc + value_of (f x))"
    and count: "is_count (js_add acc (f x))"
    using js_add_count [OF Cons.prems(1) x step] by simp_all
  have "value_of (js_add acc (f x)) + arithmetic_sum f xs \<le> 2 ^ 53"
    using Cons.prems(3) by (simp add: add value_of_def add.assoc)
  from Cons.IH [OF count rest this] show ?case
    by (simp add: add value_of_def add.assoc)
qed

lemma db_sum_exact:
  assumes "exact_field f xs"
  shows "db_sum (map f xs) = Num (arithmetic_sum f xs)"
proof -
  have "is_count (Num 0)" by (simp add: is_count_def)
  from foldl_js_add_count [OF this, of f xs] assms show ?thesis
    by (simp add: db_sum_def exact_field_def value_of_def)
qed

lemma or_default_Num: "or_default (Num q) (Num 0) = Num q"
  by (simp add: or_default_def)

text \<open>The same for numerals: rules to compute with in the examples.\<close>

lemma to_double_exact:
  assumes "0 \<le> q" and "of_int \<lfloor>q\<rfloor> = q" and "q \<le> 9007199254740992"
  shows "to_double q = Num q"
proof -
  from assms(1,2) have "is_count (Num q)" by (simp add: is_count_def)
  then obtain n where n: "q = of_nat n" by (auto simp: is_count_iff)
  with assms(3) have "(of_nat n :: rat) \<le> of_nat 9007199254740992" by simp
  then have "n \<le> 9007199254740992" by (simp only: of_nat_le_iff)
  then show ?thesis unfolding n by (rule to_double_of_nat)
qed

lemma js_add_exact:
  "0 \<le> a + b \<Longrightarrow> of_int \<lfloor>a + b\<rfloor> = a + b \<Longrightarrow> a + b \<le> 9007199254740992 \<Longrightarrow>
   js_add (Num a) (Num b) = Num (a + b)"
  by (simp add: to_double_exact)

lemma js_div_exact:
  "b \<noteq> 0 \<Longrightarrow> 0 \<le> a / b \<Longrightarrow> of_int \<lfloor>a / b\<rfloor> = a / b \<Longrightarrow> a / b \<le> 9007199254740992 \<Longrightarrow>
   js_div (Num a) (Num b) = Num (a / b)"
  by (simp add: to_double_exact)

section \<open>Filters\<close>

lemma with_date_one_bound: "truthy start \<noteq> truthy end \<Longrightarrow> with_date e start end q = q"
  by (auto simp: with_date_def split: option.splits)

lemma with_date_none: "with_date e None None q = q"
  by (simp add: with_date_def)

lemma with_campaignId_falsy: "\<not> truthy c \<Longrightarrow> with_campaignId c q = q"
  by (simp add: with_campaignId_def)

lemma overview_query_no_company:
  assumes "\<not> truthy company" and "bounds_parse e start end"
  shows "matches e (with_date e start end (with_companyId company empty_query))
           = in_range e start end"
  using assms
  by (intro ext)
    (auto simp: matches_def with_date_def with_companyId_def empty_query_def truthy_def
      in_range_def bounds_parse_def time_of_def split: option.splits)

text \<open>The company of the request is set in the pipeline as a string: no document matches.\<close>

lemma overview_query_company:
  assumes "truthy company"
  shows "matches e (with_date e start end (with_companyId company empty_query)) r = False"
  using assms
  by (auto simp: matches_def with_date_def with_companyId_def empty_query_def truthy_def
      split: option.splits)

lemma filter_company_given:
  assumes "truthy company"
  shows "filter (matches e (with_date e start end (with_companyId company empty_query))) xs = []"
  using overview_query_company [OF assms] by (simp add: filter_empty_conv)

lemma cast_campaign_filter:
  assumes "castObjectId e c = Some i" and "bounds_parse e start end"
  shows "\<exists>q. cast_filter e (with_date e start end (empty_query\<lparr>q_campaignId := Some (BString c)\<rparr>))
               = Inr q \<and>
             matches e q = (\<lambda>r. campaignId r = i \<and> in_range e start end r)"
proof (cases "truthy start \<and> truthy end")
  case True
  then obtain s t where st: "start = Some s" "end = Some t" "s \<noteq> []" "t \<noteq> []"
    by (auto simp: truthy_def split: option.splits)
  with assms(2) obtain lo hi where dates: "newDate e s = Some lo" "newDate e t = Some hi"
    by (auto simp: bounds_parse_def)
  let ?q = "\<lparr>q_companyId = None, q_campaignId = Some (BObjectId i), q_date = Some (Some lo, Some hi)\<rparr>"
  have "cast_filter e (with_date e start end (empty_query\<lparr>q_campaignId := Some (BString c)\<rparr>))
          = Inr ?q"
    using assms(1) st dates
    by (simp add: cast_filter_def cast_id_def cast_date_def with_date_def truthy_def empty_query_def)
  moreover have "matches e ?q = (\<lambda>r. campaignId r = i \<and> in_range e start end r)"
    using st dates by (intro ext) (auto simp: matches_def in_range_def time_of_def)
  ultimately show ?thesis by blast
next
  case False
  let ?q = "\<lparr>q_companyId = None, q_campaignId = Some (BObjectId i), q_date = None\<rparr>"
  from False have same: "with_date e start end (empty_query\<lparr>q_campaignId := Some (BString c)\<rparr>)
          = empty_query\<lparr>q_campaignId := Some (BString c)\<rparr>"
    by (auto simp: with_date_def split: option.splits)
  have "cast_filter e (with_date e start end (empty_query\<lparr>q_campaignId := Some (BString c)\<rparr>))
          = Inr ?q"
    unfolding same using assms(1)
    by (simp add: cast_filter_def cast_id_def cast_date_def empty_query_def)
  moreover have "matches e ?q = (\<lambda>r. campaignId r = i \<and> in_range e start end r)"
    using False
    by (intro ext) (auto simp: matches_def in_range_def truthy_def split: option.splits)
  ultimately show ?thesis by blast
qed

lemma cast_campaign_filter_fails:
  assumes "castObjectId e c = None"
  shows "cast_filter e (with_date e start end (empty_query\<lparr>q_campaignId := Some (BString c)\<rparr>))
           = Inl (CastError ''campaignId'')"
  using assms
  by (auto simp: cast_filter_def cast_id_def with_date_def empty_query_def split: option.splits)

lemma in_range_no_bounds [simp]: "in_range e None None r"
  by (simp add: in_range_def)

section \<open>Grouping by channel\<close>

lemma ids_add_to_group:
  "group_id ` set (add_to_group r gs) = insert (Some (channel r)) (group_id ` set gs)"
  by (induction gs) (auto simp: new_group_def merge_group_def)

lemma ids_fold_add_to_group:
  "group_id ` set (fold add_to_group xs gs)
     = (\<lambda>r. Some (channel r)) ` set xs \<union> group_id ` set gs"
  by (induction xs arbitrary: gs) (auto simp: ids_add_to_group)

lemma channel_rows_channels:
  "channel ` set (project_channel (group_by_channel xs)) = channel ` set xs"
proof -
  let ?name = "\<lambda>i. case i of None \<Rightarrow> [] | Some c \<Rightarrow> c"
  have ids: "group_id ` set (group_by_channel xs) = (\<lambda>r. Some (channel r)) ` set xs"
    by (simp add: group_by_channel_def ids_fold_add_to_group)
  have "channel ` set (project_channel (group_by_channel xs))
          = ?name ` (group_id ` set (group_by_channel xs))"
    by (simp add: project_channel_def image_image)
  also have "\<dots> = ?name ` ((\<lambda>r. Some (channel r)) ` set xs)"
    by (simp only: ids)
  also have "\<dots> = channel ` set xs"
    by (simp add: image_image)
  finally show ?thesis .
qed

text \<open>
  One field of the groups, \<open>g\<close>, accumulates one field of the records, \<open>f\<close>. While the
  sums stay counts of at most \<open>2^53\<close>, the groups add up to the arithmetic sum.
\<close>

lemma add_to_group_exact:
  assumes new: "\<And>r. g (new_group r) = js_add (Num 0) (f r)"
    and merge: "\<And>grp r. g (merge_group grp r) = js_add (g grp) (f r)"
    and "list_all (\<lambda>grp. is_count (g grp)) gs" and "is_count (f r)"
    and "arithmetic_sum g gs + value_of (f r) \<le> 2 ^ 53"
  shows "list_all (\<lambda>grp. is_count (g grp)) (add_to_group r gs) \<and>
         arithmetic_sum g (add_to_group r gs) = arithmetic_sum g gs + value_of (f r)"
  using assms(3,5)
proof (induction gs)
  case Nil
  have zero: "is_count (Num 0)" by (simp add: is_count_def)
  from Nil have "value_of (Num 0) + value_of (f r) \<le> 2 ^ 53"
    by (simp add: value_of_def)
  from js_add_count [OF zero \<open>is_count (f r)\<close> this] show ?case
    by (simp add: new value_of_def)
next
  case (Cons grp gs)
  from Cons.prems have head: "is_count (g grp)" and tail: "list_all (\<lambda>grp. is_count (g grp)) gs"
    by simp_all
  have tail_nonneg: "0 \<le> arithmetic_sum g gs"
    using tail by (rule arithmetic_sum_nonneg)
  have head_nonneg: "0 \<le> value_of (g grp)"
    using head by (rule value_of_count_nonneg)
  show ?case
  proof (cases "group_id grp = Some (channel r)")
    case True
    from Cons.prems(2) tail_nonneg have "value_of (g grp) + value_of (f r) \<le> 2 ^ 53"
      by simp
    from js_add_count [OF head \<open>is_count (f r)\<close> this] True tail show ?thesis
      by (simp add: merge value_of_def)
  next
    case False
    from Cons.prems(2) head_nonneg have "arithmetic_sum g gs + value_of (f r) \<le> 2 ^ 53"
      by simp
    from Cons.IH [OF tail this] False head show ?thesis
      by simp
  qed
qed

lemma fold_add_to_group_exact:
  assumes new: "\<And>r. g (new_group r) = js_add (Num 0) (f r)"
    and merge: "\<And>grp r. g (merge_group grp r) = js_add (g grp) (f r)"
    and "list_all (\<lambda>grp. is_count (g grp)) gs" and "list_all (\<lambda>r. is_count (f r)) xs"
    and "arithmetic_sum g gs + arithmetic_sum f xs \<le> 2 ^ 53"
  shows "list_all (\<lambda>grp. is_count (g grp)) (fold add_to_group xs gs) \<and>
         arithmetic_sum g (fold add_to_group xs gs) = arithmetic_sum g gs + arithmetic_sum f xs"
  using assms(3-5)
proof (induction xs arbitrary: gs)
  case Nil
  then show ?case by simp
next
  case (Cons x xs)
  from Cons.prems have x: "is_count (f x)" and rest: "list_all (\<lambda>r. is_count (f r)) xs"
    by simp_all
  have "0 \<le> arithmetic_sum f xs"
    using rest by (rule arithmetic_sum_nonneg)
  with Cons.prems(3) have "arithmetic_sum g gs + value_of (f x) \<le> 2 ^ 53"
    by simp
  from add_to_group_exact [of g f, OF new merge Cons.prems(1) x this]
  have counts: "list_all (\<lambda>grp. is_count (g grp)) (add_to_group x gs)"
    and sum: "arithmetic_sum g (add_to_group x gs) = arithmetic_sum g gs + value_of (f x)"
    by simp_all
  from Cons.prems(3) have "arithmetic_sum g (add_to_group x gs) + arithmetic_sum f xs \<le> 2 ^ 53"
    by (simp add: sum add.assoc)
  from Cons.IH [OF counts rest this] show ?case
    by (simp add: sum add.assoc)
qed

lemma group_by_channel_exact:
  assumes new: "\<And>r. g (new_group r) = js_add (Num 0) (f r)"
    and merge: "\<And>grp r. g (merge_group grp r) = js_add (g grp) (f r)"
    and "exact_field f xs"
  shows "exact_field g (group_by_channel xs) \<and>
         arithmetic_sum g (group_by_channel xs) = arithmetic_sum f xs"
  using fold_add_to_group_exact [of g f "[]" xs, OF new merge] assms(3)
  by (simp add: exact_field_def group_by_channel_def)

lemma project_channel_fields:
  "exact_field impressions (project_channel gs) = exact_field totalImpressions gs"
  "exact_field clicks (project_channel gs) = exact_field totalClicks gs"
  "exact_field conversions (project_channel gs) = exact_field totalConversions gs"
  "exact_field cost (project_channel gs) = exact_field totalCost gs"
  "arithmetic_sum impressions (project_channel gs) = arithmetic_sum totalImpressions gs"
  "arithmetic_sum clicks (project_channel gs) = arithmetic_sum totalClicks gs"
  "arithmetic_sum conversions (project_channel gs) = arithmetic_sum totalConversions gs"
  "arithmetic_sum cost (project_channel gs) = arithmetic_sum totalCost gs"
  by (simp_all add: exact_field_def arithmetic_sum_def project_channel_def list_all_iff comp_def)

lemma channel_rows_exact:
  "exact_field impressions xs \<Longrightarrow>
     exact_field impressions (project_channel (group_by_channel xs)) \<and>
     arithmetic_sum impressions (project_channel (group_by_channel xs))
       = arithmetic_sum impressions xs"
  "exact_field clicks xs \<Longrightarrow>
     exact_field clicks (project_channel (group_by_channel xs)) \<and>
     arithmetic_sum clicks (project_channel (group_by_channel xs)) = arithmetic_sum clicks xs"
  "exact_field conversions xs \<Longrightarrow>
     exact_field conversions (project_channel (group_by_channel xs)) \<and>
     arithmetic_sum conversions (project_channel (group_by_channel xs))
       = arithmetic_sum conversions xs"
  "exact_field cost xs \<Longrightarrow>
     exact_field cost (project_channel (group_by_channel xs)) \<and>
     arithmetic_sum cost (project_channel (group_by_channel xs)) = arithmetic_sum cost xs"
proof -
  show "exact_field impressions xs \<Longrightarrow>
     exact_field impressions (project_channel (group_by_channel xs)) \<and>
     arithmetic_sum impressions (project_channel (group_by_channel xs))
       = arithmetic_sum impressions xs"
    using group_by_channel_exact [of totalImpressions impressions xs]
    by (simp add: project_channel_fields new_group_def merge_group_def)
  show "exact_field clicks xs \<Longrightarrow>
     exact_field clicks (project_channel (group_by_channel xs)) \<and>
     arithmetic_sum clicks (project_channel (group_by_channel xs)) = arithmetic_sum clicks xs"
    using group_by_channel_exact [of totalClicks clicks xs]
    by (simp add: project_channel_fields new_group_def merge_group_def)
  show "exact_field conversions xs \<Longrightarrow>
     exact_field conversions (project_channel (group_by_channel xs)) \<and>
     arithmetic_sum conversions (project_channel (group_by_channel xs))
       = arithmetic_sum conversions xs"
    using group_by_channel_exact [of totalConversions conversions xs]
    by (simp add: project_channel_fields new_group_def merge_group_def)
  show "exact_field cost xs \<Longrightarrow>
     exact_field cost (project_channel (group_by_channel xs)) \<and>
     arithmetic_sum cost (project_channel (group_by_channel xs)) = arithmetic_sum cost xs"
    using group_by_channel_exact [of totalCost cost xs]
    by (simp add: project_channel_fields new_group_def merge_group_def)
qed

section \<open>The services on a store that answers\<close>

lemma overview_value:
  assumes "failure st = None"
    and "m = filter (matches e (with_date e (p_start ps) (p_end ps)
                       (with_companyId (p_companyId ps) empty_query))) (analytics_docs st)"
  shows "fst (getOverview e ps st) =
           Inr (if m = []
                then \<lparr>impressions = Num 0, clicks = Num 0, conversions = Num 0, cost = Num 0\<rparr>
                else \<lparr>impressions = or_default (db_sum (map impressions m)) (Num 0),
                      clicks = or_default (db_sum (map clicks m)) (Num 0),
                      conversions = or_default (db_sum (map conversions m)) (Num 0),
                      cost = or_default (db_sum (map cost m)) (Num 0)\<rparr>)"
  using assms
  by (simp add: getOverview_def Analytics_aggregate_def match_stage_def group_all_def Let_def)

lemma or_default_db_sum:
  "exact_field f m \<Longrightarrow> or_default (db_sum (map f m)) (Num 0) = Num (arithmetic_sum f m)"
  by (simp add: db_sum_exact or_default_Num)

lemma channel_value:
  assumes "failure st = None"
    and "m = filter (matches e (with_date e (p_start ps) (p_end ps)
                       (with_campaignId (p_campaignId ps)
                         (with_companyId (p_companyId ps) empty_query)))) (analytics_docs st)"
  shows "fst (getChannelAnalytics e ps st) = Inr (project_channel (group_by_channel m))"
  using assms
  by (simp add: getChannelAnalytics_def Analytics_aggregate_def match_stage_def)

lemma campaign_find_value:
  assumes "castObjectId e c = Some i" and "bounds_parse e start end" and "failure st = None"
  shows "Analytics_find e (with_date e start end (empty_query\<lparr>q_campaignId := Some (BString c)\<rparr>)) st
           = (Inr (filter (\<lambda>r. campaignId r = i \<and> in_range e start end r) (analytics_docs st)), st)"
proof -
  from cast_campaign_filter [OF assms(1,2)] obtain q where
    "cast_filter e (with_date e start end (empty_query\<lparr>q_campaignId := Some (BString c)\<rparr>)) = Inr q"
    and "matches e q = (\<lambda>r. campaignId r = i \<and> in_range e start end r)"
    by blast
  with assms(3) show ?thesis
    by (simp add: Analytics_find_def)
qed

lemma campaign_find_fails:
  assumes "castObjectId e c = None"
  shows "Analytics_find e (with_date e start end (empty_query\<lparr>q_campaignId := Some (BString c)\<rparr>)) st
           = (Inl (CastError ''campaignId''), st)"
  by (simp add: Analytics_find_def cast_campaign_filter_fails [OF assms])

lemma recent_find_value:
  assumes "castObjectId e c = Some i" and "failure st = None"
  shows "Analytics_find e (empty_query\<lparr>q_campaignId := Some (BString c)\<rparr>) st
           = (Inr (filter (\<lambda>r. campaignId r = i) (analytics_docs st)), st)"
  using campaign_find_value [OF assms(1) _ assms(2), of None None]
  by (simp add: with_date_none bounds_parse_def)

lemma recent_find_fails:
  assumes "castObjectId e c = None"
  shows "Analytics_find e (empty_query\<lparr>q_campaignId := Some (BString c)\<rparr>) st
           = (Inl (CastError ''campaignId''), st)"
  using campaign_find_fails [OF assms, of None None st] by (simp add: with_date_none)

section \<open>Campaign series with a missing identifier\<close>

text \<open>
  C4. Called with a missing campaign identifier (absent or empty), \<open>getCampaignAnalytics\<close>
  returns \<open>null\<close> and raises nothing, whereas the sibling service \<open>getIntegrations\<close>
  raises an error when its company identifier is missing.
\<close>

theorem missing_campaign_returns_null:
  assumes "\<not> truthy missing"
  shows "getCampaignAnalytics e (ps\<lparr>p_campaignId := missing\<rparr>) st = (Inr None, st)
       \<and> getIntegrations e missing st =
           (Inl (Error ''companyId is required to retrieve integrations.''), st)"
  using assms by (simp add: getCampaignAnalytics_def getIntegrations_def)

theorem missing_campaign_returns_null_witness:
  "\<not> truthy None \<and> \<not> truthy (Some []) \<and>
   fst (getCampaignAnalytics example_env (january\<lparr>p_campaignId := None\<rparr>) example_store)
     = Inr None \<and>
   fst (getCampaignAnalytics example_env (january\<lparr>p_campaignId := Some []\<rparr>) failing_store)
     = Inr None \<and>
   fst (getIntegrations example_env None example_store)
     = Inl (Error ''companyId is required to retrieve integrations.'')"
proof -
  have absent: "\<not> truthy None" and empty: "\<not> truthy (Some [])"
    by (simp_all add: truthy_def)
  from missing_campaign_returns_null [OF absent, of example_env january example_store]
    missing_campaign_returns_null [OF empty, of example_env january failing_store]
    absent empty
  show ?thesis by simp
qed

section \<open>Recommendations with no campaign\<close>

text \<open>
  C5. With no campaign identifier (absent or empty), \<open>getRecommendations\<close> returns exactly
  the two fixed generic strings, whatever the store holds and whether or not it answers.
\<close>

theorem getRecommendations_generic:
  assumes "\<not> truthy cid"
  shows "fst (getRecommendations e cid st) =
           Inr [''Consider shifting budget to high-conversion channels.'',
                ''Explore retargeting if conversions are below target.'']"
  using assms by (simp add: getRecommendations_def)

theorem getRecommendations_generic_witness:
  "\<not> truthy None \<and> \<not> truthy (Some []) \<and>
   fst (getRecommendations example_env None failing_store) =
     Inr [''Consider shifting budget to high-conversion channels.'',
          ''Explore retargeting if conversions are below target.''] \<and>
   fst (getRecommendations example_env (Some []) example_store) =
     Inr [''Consider shifting budget to high-conversion channels.'',
          ''Explore retargeting if conversions are below target.'']"
proof -
  have absent: "\<not> truthy None" and empty: "\<not> truthy (Some [])"
    by (simp_all add: truthy_def)
  from getRecommendations_generic [OF absent, of example_env failing_store]
    getRecommendations_generic [OF empty, of example_env example_store]
    absent empty
  show ?thesis by simp
qed

section \<open>Date filter\<close>

text \<open>
  C10. In \<open>getOverview\<close>, \<open>getCampaignAnalytics\<close> and \<open>getChannelAnalytics\<close> the date
  filter applies only when both bounds are given: with exactly one of the two, the result
  is the result of the same call with no date bound at all.
\<close>

theorem one_bound_no_date_filter:
  assumes "truthy start \<noteq> truthy end"
  shows "getOverview e (ps\<lparr>p_start := start, p_end := end\<rparr>) st
           = getOverview e (ps\<lparr>p_start := None, p_end := None\<rparr>) st
       \<and> getCampaignAnalytics e (ps\<lparr>p_start := start, p_end := end\<rparr>) st
           = getCampaignAnalytics e (ps\<lparr>p_start := None, p_end := None\<rparr>) st
       \<and> getChannelAnalytics e (ps\<lparr>p_start := start, p_end := end\<rparr>) st
           = getChannelAnalytics e (ps\<lparr>p_start := None, p_end := None\<rparr>) st"
  using assms
  by (simp add: getOverview_def getCampaignAnalytics_def getChannelAnalytics_def
      with_date_one_bound with_date_none)

text \<open>
  With only the end bound 2024-01-31, the record of 1 February is counted: the totals are
  those of all five records.
\<close>

theorem one_bound_no_date_filter_witness:
  "truthy None \<noteq> truthy (Some ''2024-01-31'') \<and>
   fst (getOverview example_env (no_params\<lparr>p_start := None, p_end := Some ''2024-01-31''\<rparr>)
          example_store)
     = Inr \<lparr>impressions = Num 360, clicks = Num 9, conversions = Num 2, cost = Num 38\<rparr> \<and>
   fst (getOverview example_env (no_params\<lparr>p_start := None, p_end := None\<rparr>) example_store)
     = Inr \<lparr>impressions = Num 360, clicks = Num 9, conversions = Num 2, cost = Num 38\<rparr>"
proof -
  have one: "truthy None \<noteq> truthy (Some ''2024-01-31'')"
    by (simp add: truthy_def)
  have up: "failure example_store = None"
    by (simp add: example_store_def)
  have "fst (getOverview example_env (no_params\<lparr>p_start := None, p_end := None\<rparr>) example_store)
     = Inr \<lparr>impressions = Num 360, clicks = Num 9, conversions = Num 2, cost = Num 38\<rparr>"
    using overview_value [OF up refl, of example_env "no_params\<lparr>p_start := None, p_end := None\<rparr>"]
    by (simp add: no_params_def with_date_none with_companyId_def truthy_def empty_query_def
        matches_def example_store_def example_docs_def example_record_def db_sum_def
        to_double_exact or_default_def)
  with one_bound_no_date_filter [OF one, of example_env no_params example_store] one
  show ?thesis by simp
qed

section \<open>Error responses of the controller\<close>

text \<open>
  C8. Every response of the four analytics endpoints is either the success response with
  status 200 or an error response of the shape \<open>{success: false, message}\<close>. The status of
  an error response is 500 exactly when the service raised an error, and 404 only on the
  campaign-series endpoint, exactly when the service returned \<open>null\<close>.
\<close>

theorem controller_error_responses:
  "(let r = fst (controller_getOverview e req st)
    in (status r = 200 \<and> success r \<or> status r = 500 \<and> error_shape r) \<and>
       (status r = 500 \<longleftrightarrow> failure st \<noteq> None)) \<and>
   (let r = fst (controller_getCampaignAnalytics e req st);
        result = fst (getCampaignAnalytics e
                   (no_params\<lparr>p_campaignId := p_campaignId (req_params req),
                              p_start := p_start (req_query req),
                              p_end := p_end (req_query req)\<rparr>) st)
    in (status r = 200 \<and> success r \<or> status r = 404 \<and> error_shape r
          \<or> status r = 500 \<and> error_shape r) \<and>
       (status r = 404 \<longleftrightarrow> result = Inr None) \<and>
       (status r = 500 \<longleftrightarrow> isl result)) \<and>
   (let r = fst (controller_getChannelAnalytics e req st)
    in (status r = 200 \<and> success r \<or> status r = 500 \<and> error_shape r) \<and>
       (status r = 500 \<longleftrightarrow> failure st \<noteq> None)) \<and>
   (let r = fst (controller_getRecommendations e req st)
    in (status r = 200 \<and> success r \<or> status r = 500 \<and> error_shape r) \<and>
       (status r = 500 \<longleftrightarrow>
          isl (fst (getRecommendations e (p_campaignId (req_query req)) st))))"
proof -
  have overview: "let r = fst (controller_getOverview e req st)
    in (status r = 200 \<and> success r \<or> status r = 500 \<and> error_shape r) \<and>
       (status r = 500 \<longleftrightarrow> failure st \<noteq> None)"
    by (auto simp: controller_getOverview_def getOverview_def Analytics_aggregate_def
        ok_def fail_def error_shape_def Let_def split: option.splits list.splits)
  have campaign: "let r = fst (controller_getCampaignAnalytics e req st);
        result = fst (getCampaignAnalytics e
                   (no_params\<lparr>p_campaignId := p_campaignId (req_params req),
                              p_start := p_start (req_query req),
                              p_end := p_end (req_query req)\<rparr>) st)
    in (status r = 200 \<and> success r \<or> status r = 404 \<and> error_shape r
          \<or> status r = 500 \<and> error_shape r) \<and>
       (status r = 404 \<longleftrightarrow> result = Inr None) \<and>
       (status r = 500 \<longleftrightarrow> isl result)"
    by (auto simp: controller_getCampaignAnalytics_def ok_def fail_def error_shape_def Let_def
        split: prod.splits sum.splits option.splits)
  have channels: "let r = fst (controller_getChannelAnalytics e req st)
    in (status r = 200 \<and> success r \<or> status r = 500 \<and> error_shape r) \<and>
       (status r = 500 \<longleftrightarrow> failure st \<noteq> None)"
    by (auto simp: controller_getChannelAnalytics_def getChannelAnalytics_def
        Analytics_aggregate_def ok_def fail_def error_shape_def Let_def split: option.splits)
  have recommendations: "let r = fst (controller_getRecommendations e req st)
    in (status r = 200 \<and> success r \<or> status r = 500 \<and> error_shape r) \<and>
       (status r = 500 \<longleftrightarrow>
          isl (fst (getRecommendations e (p_campaignId (req_query req)) st)))"
    by (auto simp: controller_getRecommendations_def ok_def fail_def error_shape_def Let_def
        split: prod.splits sum.splits)
  from overview campaign channels recommendations show ?thesis by blast
qed

text \<open>
  A campaign-series request with an empty identifier is answered 404; any request to a
  store that fails is answered 500; both carry a message and no data.
\<close>

theorem controller_error_responses_witness:
  "fst (controller_getCampaignAnalytics example_env
          \<lparr>req_params = no_params\<lparr>p_campaignId := Some []\<rparr>, req_query = january\<rparr> example_store)
     = \<lparr>status = 404, success = False, data = None,
        message = Some ''No analytics found for campaign ID: ''\<rparr> \<and>
   fst (controller_getOverview example_env
          \<lparr>req_params = no_params, req_query = january\<rparr> failing_store)
     = \<lparr>status = 500, success = False, data = None,
        message = Some ''Failed to retrieve analytics overview.''\<rparr> \<and>
   error_shape (fst (controller_getOverview example_env
          \<lparr>req_params = no_params, req_query = january\<rparr> failing_store))"
proof -
  have "fst (controller_getCampaignAnalytics example_env
          \<lparr>req_params = no_params\<lparr>p_campaignId := Some []\<rparr>, req_query = january\<rparr> example_store)
     = \<lparr>status = 404, success = False, data = None,
        message = Some ''No analytics found for campaign ID: ''\<rparr>"
    by (simp add: controller_getCampaignAnalytics_def getCampaignAnalytics_def truthy_def
        no_params_def fail_def interpolate_def)
  moreover have r: "fst (controller_getOverview example_env
          \<lparr>req_params = no_params, req_query = january\<rparr> failing_store)
     = \<lparr>status = 500, success = False, data = None,
        message = Some ''Failed to retrieve analytics overview.''\<rparr>"
    by (simp add: controller_getOverview_def getOverview_def Analytics_aggregate_def
        failing_store_def fail_def Let_def)
  moreover have "error_shape (fst (controller_getOverview example_env
          \<lparr>req_params = no_params, req_query = january\<rparr> failing_store))"
    using controller_error_responses
      [of example_env "\<lparr>req_params = no_params, req_query = january\<rparr>" failing_store]
      r
    by (simp add: Let_def)
  ultimately show ?thesis by blast
qed

section \<open>Aggregation is read-only\<close>

text \<open>
  C9. Each of \<open>getOverview\<close>, \<open>getCampaignAnalytics\<close>, \<open>getChannelAnalytics\<close> and
  \<open>getRecommendations\<close> returns the store it was given: no analytics record is created,
  updated or deleted, for every store and every input.
\<close>

theorem aggregation_read_only:
  "snd (getOverview e ps st) = st \<and>
   snd (getCampaignAnalytics e ps st) = st \<and>
   snd (getChannelAnalytics e ps st) = st \<and>
   snd (getRecommendations e cid st) = st \<and>
   analytics_docs (snd (getOverview e ps st)) = analytics_docs st \<and>
   analytics_docs (snd (getCampaignAnalytics e ps st)) = analytics_docs st \<and>
   analytics_docs (snd (getChannelAnalytics e ps st)) = analytics_docs st \<and>
   analytics_docs (snd (getRecommendations e cid st)) = analytics_docs st"
proof -
  have "snd (getOverview e ps st) = st"
    by (simp add: getOverview_def Analytics_aggregate_def Let_def
        split: option.splits list.splits)
  moreover have "snd (getCampaignAnalytics e ps st) = st"
    by (simp add: getCampaignAnalytics_def Analytics_find_def Let_def
        split: option.splits sum.splits)
  moreover have "snd (getChannelAnalytics e ps st) = st"
    by (simp add: getChannelAnalytics_def Analytics_aggregate_def Let_def split: option.splits)
  moreover have "snd (getRecommendations e cid st) = st"
    by (simp add: getRecommendations_def Analytics_find_def Let_def
        split: option.splits sum.splits)
  ultimately show ?thesis by simp
qed

theorem aggregation_read_only_witness:
  "snd (getOverview example_env january example_store) = example_store \<and>
   snd (getCampaignAnalytics example_env (january\<lparr>p_campaignId := Some id_c1\<rparr>) example_store)
     = example_store \<and>
   snd (getChannelAnalytics example_env january example_store) = example_store \<and>
   snd (getRecommendations example_env (Some id_c1) example_store) = example_store"
  using aggregation_read_only
    [of example_env january example_store "Some id_c1"]
    aggregation_read_only
    [of example_env "january\<lparr>p_campaignId := Some id_c1\<rparr>" example_store None]
  by simp

section \<open>Overview totals\<close>

text \<open>A company given in the request is matched as a string: the totals are zero.\<close>

lemma getOverview_company_given:
  assumes "failure st = None" and "truthy (p_companyId ps)"
  shows "fst (getOverview e ps st) =
           Inr \<lparr>impressions = Num 0, clicks = Num 0, conversions = Num 0, cost = Num 0\<rparr>"
  using overview_value [OF assms(1) refl, of e ps]
  by (simp add: filter_company_given [OF assms(2)])

lemma overview_exact:
  assumes "failure st = None"
    and "\<not> truthy (p_companyId ps)"
    and "bounds_parse e (p_start ps) (p_end ps)"
    and "sel = filter (in_range e (p_start ps) (p_end ps)) (analytics_docs st)"
  shows "\<exists>tot. fst (getOverview e ps st) = Inr tot \<and>
           (exact_field impressions sel \<longrightarrow>
              impressions tot = Num (arithmetic_sum impressions sel)) \<and>
           (exact_field clicks sel \<longrightarrow> clicks tot = Num (arithmetic_sum clicks sel)) \<and>
           (exact_field conversions sel \<longrightarrow>
              conversions tot = Num (arithmetic_sum conversions sel)) \<and>
           (exact_field cost sel \<longrightarrow> cost tot = Num (arithmetic_sum cost sel)) \<and>
           (sel = [] \<longrightarrow>
              tot = \<lparr>impressions = Num 0, clicks = Num 0, conversions = Num 0, cost = Num 0\<rparr>)"
proof -
  have m: "sel = filter (matches e (with_date e (p_start ps) (p_end ps)
                       (with_companyId (p_companyId ps) empty_query))) (analytics_docs st)"
    by (simp add: assms(4) overview_query_no_company [OF assms(2,3)])
  show ?thesis
  proof (cases "sel = []")
    case True
    with overview_value [OF assms(1) m] show ?thesis by simp
  next
    case False
    with overview_value [OF assms(1) m] show ?thesis
      by (simp add: or_default_db_sum)
  qed
qed

text \<open>
  C1 (amended). On a store that answers, for a filter with no company identifier and an
  optional date range whose bounds are dates, \<open>getOverview\<close> returns totals, never an
  error. Each field whose values over the records in the date range are non-negative
  integers with a sum of at most \<open>2^53\<close> has their arithmetic sum as its total. When no
  record is in the range, the four totals are 0.
\<close>

theorem getOverview_totals:
  assumes "failure st = None"
    and "\<not> truthy (p_companyId ps)"
    and "bounds_parse e (p_start ps) (p_end ps)"
    and "sel = filter (in_range e (p_start ps) (p_end ps)) (analytics_docs st)"
  shows "\<exists>tot. fst (getOverview e ps st) = Inr tot \<and>
           (exact_field impressions sel \<longrightarrow>
              impressions tot = Num (arithmetic_sum impressions sel)) \<and>
           (exact_field clicks sel \<longrightarrow> clicks tot = Num (arithmetic_sum clicks sel)) \<and>
           (exact_field conversions sel \<longrightarrow>
              conversions tot = Num (arithmetic_sum conversions sel)) \<and>
           (exact_field cost sel \<longrightarrow> cost tot = Num (arithmetic_sum cost sel)) \<and>
           (sel = [] \<longrightarrow>
              tot = \<lparr>impressions = Num 0, clicks = Num 0, conversions = Num 0, cost = Num 0\<rparr>)"
  using assms by (rule overview_exact)

text \<open>
  January 2024: four of the five records are in the range; their fields are counts, and
  the totals are their sums. A range that ends before it starts holds no record: the
  totals are zero.
\<close>

theorem getOverview_totals_witness:
  "failure example_store = None \<and> \<not> truthy (p_companyId january) \<and>
   bounds_parse example_env (p_start january) (p_end january) \<and>
   fst (getOverview example_env january example_store)
     = Inr \<lparr>impressions = Num 350, clicks = Num 4, conversions = Num 1, cost = Num 8\<rparr> \<and>
   filter (in_range example_env (p_start backwards) (p_end backwards))
     (analytics_docs example_store) = [] \<and>
   fst (getOverview example_env backwards example_store)
     = Inr \<lparr>impressions = Num 0, clicks = Num 0, conversions = Num 0, cost = Num 0\<rparr>"
proof -
  let ?sel = "filter (in_range example_env (p_start january) (p_end january))
                (analytics_docs example_store)"
  have up: "failure example_store = None"
    by (simp add: example_store_def)
  have none: "\<not> truthy (p_companyId january)"
    by (simp add: january_def no_params_def truthy_def)
  have dates: "bounds_parse example_env (p_start january) (p_end january)"
    by (simp add: bounds_parse_def january_def no_params_def example_env_def example_newDate_def)
  have sel: "?sel =
      [example_record id_c1 (Some id_co1) 1704240000000 ''Facebook'' 100 1 0 2,
       example_record id_c1 (Some id_co1) 1704067200000 ''GoogleAds'' 100 2 0 2,
       example_record id_c1 (Some id_co2) 1704153600000 ''Facebook'' 100 0 0 2,
       example_record id_c2 None 1704326400000 ''Facebook'' 50 1 1 2]"
    by (simp add: in_range_def january_def no_params_def example_env_def example_newDate_def
        example_store_def example_docs_def example_record_def)
  have exact: "exact_field impressions ?sel" "exact_field clicks ?sel"
    "exact_field conversions ?sel" "exact_field cost ?sel"
    unfolding sel by (simp_all add: exact_field_def is_count_def example_record_def value_of_def)
  have sums: "arithmetic_sum impressions ?sel = 350" "arithmetic_sum clicks ?sel = 4"
    "arithmetic_sum conversions ?sel = 1" "arithmetic_sum cost ?sel = 8"
    unfolding sel by (simp_all add: example_record_def value_of_def)
  from getOverview_totals [OF up none dates refl] exact sums
  obtain tot where "fst (getOverview example_env january example_store) = Inr tot"
    and "impressions tot = Num 350" and "clicks tot = Num 4"
    and "conversions tot = Num 1" and "cost tot = Num 8"
    by auto
  then have first: "fst (getOverview example_env january example_store)
     = Inr \<lparr>impressions = Num 350, clicks = Num 4, conversions = Num 1, cost = Num 8\<rparr>"
    by simp
  have none': "\<not> truthy (p_companyId backwards)"
    by (simp add: backwards_def no_params_def truthy_def)
  have dates': "bounds_parse example_env (p_start backwards) (p_end backwards)"
    by (simp add: bounds_parse_def backwards_def no_params_def example_env_def
        example_newDate_def)
  have empty: "filter (in_range example_env (p_start backwards) (p_end backwards))
     (analytics_docs example_store) = []"
    by (simp add: in_range_def backwards_def no_params_def example_env_def example_newDate_def
        example_store_def example_docs_def example_record_def)
  from getOverview_totals [OF up none' dates' refl] empty
  have "fst (getOverview example_env backwards example_store)
     = Inr \<lparr>impressions = Num 0, clicks = Num 0, conversions = Num 0, cost = Num 0\<rparr>"
    by auto
  with first empty up none dates show ?thesis by simp
qed

text \<open>
  C1 stated for every set of records fails where the sum is not a binary64 value: for
  impressions \<open>2^53\<close> and 1 the total is \<open>2^53\<close>, the arithmetic sum \<open>2^53 + 1\<close>.
\<close>

theorem getOverview_totals_counterexample:
  "fst (getOverview example_env no_params big_store)
     = Inr \<lparr>impressions = Num 9007199254740992, clicks = Num 0, conversions = Num 0,
            cost = Num 0\<rparr> \<and>
   arithmetic_sum impressions (analytics_docs big_store) = 9007199254740993 \<and>
   Num 9007199254740992 \<noteq> Num (arithmetic_sum impressions (analytics_docs big_store))"
proof -
  have up: "failure big_store = None"
    by (simp add: big_store_def)
  have round: "js_add (Num 9007199254740992) (Num 1) = Num 9007199254740992"
    by code_simp
  have "fst (getOverview example_env no_params big_store)
     = Inr \<lparr>impressions = Num 9007199254740992, clicks = Num 0, conversions = Num 0,
            cost = Num 0\<rparr>"
    using overview_value [OF up refl, of example_env no_params] round
    by (simp add: no_params_def with_date_none with_companyId_def truthy_def empty_query_def
        matches_def big_store_def big_docs_def example_record_def db_sum_def
        js_add_exact or_default_def del: js_add.simps)
  moreover have "arithmetic_sum impressions (analytics_docs big_store) = 9007199254740993"
    by (simp add: big_store_def big_docs_def example_record_def value_of_def)
  ultimately show ?thesis by simp
qed

section \<open>Channel breakdown\<close>

lemma exact_field_Nil [simp]: "exact_field f []"
  by (simp add: exact_field_def)

text \<open>
  C2 (amended). For a filter of an optional company and an optional date range whose
  bounds are dates, with no campaign identifier, on a store that answers: every row of
  \<open>getChannelAnalytics\<close> carries the channel name of some record of the filtered set; and
  for each of the four fields whose values over the filtered set are non-negative
  integers with a sum of at most \<open>2^53\<close>, the values of the rows are such integers too,
  and their arithmetic sum is the total \<open>getOverview\<close> returns for the same filter.
\<close>

theorem getChannelAnalytics_rows:
  assumes "failure st = None"
    and "\<not> truthy (p_campaignId ps)"
    and "bounds_parse e (p_start ps) (p_end ps)"
    and "sel = filter (\<lambda>r. in_company e (p_companyId ps) r \<and>
                            in_range e (p_start ps) (p_end ps) r) (analytics_docs st)"
  shows "\<exists>rows tot.
           fst (getChannelAnalytics e ps st) = Inr rows \<and>
           fst (getOverview e ps st) = Inr tot \<and>
           (\<forall>row \<in> set rows. \<exists>r \<in> set sel. channel r = channel row) \<and>
           (exact_field impressions sel \<longrightarrow>
              exact_field impressions rows \<and>
              impressions tot = Num (arithmetic_sum impressions rows)) \<and>
           (exact_field clicks sel \<longrightarrow>
              exact_field clicks rows \<and> clicks tot = Num (arithmetic_sum clicks rows)) \<and>
           (exact_field conversions sel \<longrightarrow>
              exact_field conversions rows \<and>
              conversions tot = Num (arithmetic_sum conversions rows)) \<and>
           (exact_field cost sel \<longrightarrow>
              exact_field cost rows \<and> cost tot = Num (arithmetic_sum cost rows))"
proof (cases "truthy (p_companyId ps)")
  case True
  have "filter (matches e (with_date e (p_start ps) (p_end ps)
                  (with_campaignId (p_campaignId ps)
                    (with_companyId (p_companyId ps) empty_query)))) (analytics_docs st) = []"
    by (simp add: with_campaignId_falsy [OF assms(2)] filter_company_given [OF True])
  with channel_value [OF assms(1) refl, of e ps]
  have rows: "fst (getChannelAnalytics e ps st) = Inr []"
    by (simp add: project_channel_def group_by_channel_def)
  have tot: "fst (getOverview e ps st) =
           Inr \<lparr>impressions = Num 0, clicks = Num 0, conversions = Num 0, cost = Num 0\<rparr>"
    using assms(1) True by (rule getOverview_company_given)
  from rows tot show ?thesis by simp
next
  case False
  then have company: "in_company e (p_companyId ps) = (\<lambda>r. True)"
    by (intro ext) (auto simp: in_company_def truthy_def split: option.splits)
  have sel: "sel = filter (in_range e (p_start ps) (p_end ps)) (analytics_docs st)"
    by (simp add: assms(4) company)
  let ?rows = "project_channel (group_by_channel sel)"
  have "sel = filter (matches e (with_date e (p_start ps) (p_end ps)
                  (with_campaignId (p_campaignId ps)
                    (with_companyId (p_companyId ps) empty_query)))) (analytics_docs st)"
    by (simp add: sel with_campaignId_falsy [OF assms(2)]
        overview_query_no_company [OF False assms(3)])
  from channel_value [OF assms(1) this]
  have rows: "fst (getChannelAnalytics e ps st) = Inr ?rows" .
  from overview_exact [OF assms(1) False assms(3) sel] obtain tot where
    tot: "fst (getOverview e ps st) = Inr tot"
    and totals: "exact_field impressions sel \<longrightarrow>
              impressions tot = Num (arithmetic_sum impressions sel)"
      "exact_field clicks sel \<longrightarrow> clicks tot = Num (arithmetic_sum clicks sel)"
      "exact_field conversions sel \<longrightarrow>
              conversions tot = Num (arithmetic_sum conversions sel)"
      "exact_field cost sel \<longrightarrow> cost tot = Num (arithmetic_sum cost sel)"
    by blast
  have channels: "\<forall>row \<in> set ?rows. \<exists>r \<in> set sel. channel r = channel row"
    using channel_rows_channels [of sel] by (metis imageE imageI)
  have "exact_field impressions sel \<longrightarrow>
              exact_field impressions ?rows \<and>
              impressions tot = Num (arithmetic_sum impressions ?rows)"
    using totals(1) channel_rows_exact(1) [of sel] by simp
  moreover have "exact_field clicks sel \<longrightarrow>
              exact_field clicks ?rows \<and> clicks tot = Num (arithmetic_sum clicks ?rows)"
    using totals(2) channel_rows_exact(2) [of sel] by simp
  moreover have "exact_field conversions sel \<longrightarrow>
              exact_field conversions ?rows \<and>
              conversions tot = Num (arithmetic_sum conversions ?rows)"
    using totals(3) channel_rows_exact(3) [of sel] by simp
  moreover have "exact_field cost sel \<longrightarrow>
              exact_field cost ?rows \<and> cost tot = Num (arithmetic_sum cost ?rows)"
    using totals(4) channel_rows_exact(4) [of sel] by simp
  ultimately show ?thesis
    using rows tot channels by blast
qed

text \<open>
  January 2024, all companies: the four records in the range fall into two channels, and
  the rows add up to the overview totals.
\<close>

theorem getChannelAnalytics_rows_witness:
  "failure example_store = None \<and> \<not> truthy (p_campaignId january) \<and>
   bounds_parse example_env (p_start january) (p_end january) \<and>
   fst (getChannelAnalytics example_env january example_store)
     = Inr [\<lparr>impressions = Num 250, clicks = Num 2, conversions = Num 1, cost = Num 6,
             channel = ''Facebook''\<rparr>,
            \<lparr>impressions = Num 100, clicks = Num 2, conversions = Num 0, cost = Num 2,
             channel = ''GoogleAds''\<rparr>] \<and>
   (\<exists>tot. fst (getOverview example_env january example_store) = Inr tot \<and>
      impressions tot = Num (250 + 100) \<and> clicks tot = Num (2 + 2) \<and>
      conversions tot = Num (1 + 0) \<and> cost tot = Num (6 + 2))"
proof -
  let ?sel = "filter (\<lambda>r. in_company example_env (p_companyId january) r \<and>
                in_range example_env (p_start january) (p_end january) r)
                (analytics_docs example_store)"
  let ?rows = "[\<lparr>impressions = Num 250, clicks = Num 2, conversions = Num 1, cost = Num 6,
             channel = ''Facebook''\<rparr>,
            \<lparr>impressions = Num 100, clicks = Num 2, conversions = Num 0, cost = Num 2,
             channel = ''GoogleAds''\<rparr>]"
  have up: "failure example_store = None"
    by (simp add: example_store_def)
  have none: "\<not> truthy (p_campaignId january)"
    by (simp add: january_def no_params_def truthy_def)
  have dates: "bounds_parse example_env (p_start january) (p_end january)"
    by (simp add: bounds_parse_def january_def no_params_def example_env_def example_newDate_def)
  have sel: "?sel =
      [example_record id_c1 (Some id_co1) 1704240000000 ''Facebook'' 100 1 0 2,
       example_record id_c1 (Some id_co1) 1704067200000 ''GoogleAds'' 100 2 0 2,
       example_record id_c1 (Some id_co2) 1704153600000 ''Facebook'' 100 0 0 2,
       example_record id_c2 None 1704326400000 ''Facebook'' 50 1 1 2]"
    by (simp add: in_company_def in_range_def january_def no_params_def example_env_def
        example_newDate_def example_store_def example_docs_def example_record_def)
  have exact: "exact_field impressions ?sel" "exact_field clicks ?sel"
    "exact_field conversions ?sel" "exact_field cost ?sel"
    unfolding sel by (simp_all add: exact_field_def is_count_def example_record_def value_of_def)
  have rows: "fst (getChannelAnalytics example_env january example_store) = Inr ?rows"
    using channel_value [OF up refl, of example_env january]
    by (simp add: january_def no_params_def with_date_def with_campaignId_def with_companyId_def
        truthy_def empty_query_def matches_def time_of_def example_env_def example_newDate_def
        example_store_def example_docs_def example_record_def group_by_channel_def
        new_group_def merge_group_def project_channel_def to_double_exact)
  from getChannelAnalytics_rows [OF up none dates refl] exact rows
  obtain tot where "fst (getOverview example_env january example_store) = Inr tot"
    and "impressions tot = Num (arithmetic_sum impressions ?rows)"
    and "clicks tot = Num (arithmetic_sum clicks ?rows)"
    and "conversions tot = Num (arithmetic_sum conversions ?rows)"
    and "cost tot = Num (arithmetic_sum cost ?rows)"
    by auto
  then have "\<exists>tot. fst (getOverview example_env january example_store) = Inr tot \<and>
      impressions tot = Num (250 + 100) \<and> clicks tot = Num (2 + 2) \<and>
      conversions tot = Num (1 + 0) \<and> cost tot = Num (6 + 2)"
    by (simp add: value_of_def)
  with up none dates rows show ?thesis by blast
qed

text \<open>
  C2 stated for every set of records fails where a sum is not a binary64 value.
  Impressions \<open>2^53\<close> and 1 on one channel and 2 on another, the 2 stored
  between the two: the rows hold \<open>2^53\<close> and 2, which add up to \<open>2^53 + 2\<close>, in binary64
  too; the overview total is \<open>2^53 + 4\<close>.
\<close>

theorem getChannelAnalytics_rows_counterexample:
  "fst (getChannelAnalytics example_env no_params skew_store)
     = Inr [\<lparr>impressions = Num 9007199254740992, clicks = Num 0, conversions = Num 0,
             cost = Num 0, channel = ''Facebook''\<rparr>,
            \<lparr>impressions = Num 2, clicks = Num 0, conversions = Num 0, cost = Num 0,
             channel = ''GoogleAds''\<rparr>] \<and>
   fst (getOverview example_env no_params skew_store)
     = Inr \<lparr>impressions = Num 9007199254740996, clicks = Num 0, conversions = Num 0,
            cost = Num 0\<rparr> \<and>
   arithmetic_sum impressions
     [\<lparr>impressions = Num 9007199254740992, clicks = Num 0, conversions = Num 0,
       cost = Num 0, channel = ''Facebook''\<rparr>,
      \<lparr>impressions = Num 2, clicks = Num 0, conversions = Num 0, cost = Num 0,
       channel = ''GoogleAds''\<rparr>] = 9007199254740994 \<and>
   js_add (Num 9007199254740992) (Num 2) = Num 9007199254740994 \<and>
   Num 9007199254740994 \<noteq> Num 9007199254740996"
proof -
  have up: "failure skew_store = None"
    by (simp add: skew_store_def)
  have round1: "js_add (Num 9007199254740992) (Num 1) = Num 9007199254740992"
    by code_simp
  have round2: "js_add (Num 9007199254740994) (Num 1) = Num 9007199254740996"
    by code_simp
  have exact2: "js_add (Num 9007199254740992) (Num 2) = Num 9007199254740994"
    by code_simp
  have "fst (getChannelAnalytics example_env no_params skew_store)
     = Inr [\<lparr>impressions = Num 9007199254740992, clicks = Num 0, conversions = Num 0,
             cost = Num 0, channel = ''Facebook''\<rparr>,
            \<lparr>impressions = Num 2, clicks = Num 0, conversions = Num 0, cost = Num 0,
             channel = ''GoogleAds''\<rparr>]"
    using channel_value [OF up refl, of example_env no_params] round1
    by (simp add: no_params_def with_date_none with_campaignId_def with_companyId_def
        truthy_def empty_query_def matches_def skew_store_def skew_docs_def example_record_def
        group_by_channel_def new_group_def merge_group_def project_channel_def
        js_add_exact del: js_add.simps)
  moreover have "fst (getOverview example_env no_params skew_store)
     = Inr \<lparr>impressions = Num 9007199254740996, clicks = Num 0, conversions = Num 0,
            cost = Num 0\<rparr>"
    using overview_value [OF up refl, of example_env no_params] exact2 round2
    by (simp add: no_params_def with_date_none with_companyId_def truthy_def empty_query_def
        matches_def skew_store_def skew_docs_def example_record_def db_sum_def
        js_add_exact or_default_def del: js_add.simps)
  ultimately show ?thesis
    using exact2 by (simp add: value_of_def)
qed

section \<open>Recommendation heuristic\<close>

lemma recent_properties:
  assumes "sorts e Descending camp" and "recent = limit 7 (sortByDate e Descending camp)"
  shows "length recent = min 7 (length camp)"
    and "mset recent \<subseteq># mset camp"
    and "sorted_wrt (\<lambda>a b. date b \<le> date a) recent"
    and "\<forall>old \<in># mset camp - mset recent. \<forall>r \<in> set recent. date old \<le> date r"
proof -
  let ?ys = "sortByDate e Descending camp"
  from assms(1) have perm: "mset ?ys = mset camp"
    and desc: "sorted_wrt (\<lambda>a b. date b \<le> date a) ?ys"
    by (simp_all add: sorts_def)
  have recent: "recent = take 7 ?ys"
    by (simp add: assms(2) limit_def)
  from perm have "length ?ys = length camp"
    by (rule mset_eq_length)
  then show "length recent = min 7 (length camp)"
    by (simp add: recent min.commute)
  have parts: "mset ?ys = mset (take 7 ?ys) + mset (drop 7 ?ys)"
    by (metis append_take_drop_id mset_append)
  then show "mset recent \<subseteq># mset camp"
    unfolding recent by (metis perm mset_subset_eq_add_left)
  from desc show "sorted_wrt (\<lambda>a b. date b \<le> date a) recent"
    unfolding recent by (rule sorted_wrt_take)
  from desc have "sorted_wrt (\<lambda>a b. date b \<le> date a) (take 7 ?ys @ drop 7 ?ys)"
    by simp
  then have order: "\<forall>a \<in> set (take 7 ?ys). \<forall>b \<in> set (drop 7 ?ys). date b \<le> date a"
    unfolding sorted_wrt_append by blast
  from parts perm have "mset camp - mset recent = mset (drop 7 ?ys)"
    by (simp add: recent)
  with order show "\<forall>old \<in># mset camp - mset recent. \<forall>r \<in> set recent. date old \<le> date r"
    unfolding recent by auto
qed

lemma averageCPC_unfold:
  "averageCPC xs =
     js_div
       (foldl js_add (Num 0)
          (map (\<lambda>r. js_div (cost r) (if clicks r = Num 0 \<or> clicks r = NaN then Num 1 else clicks r))
             xs))
       (Num (of_nat (length xs)))"
  by (simp add: averageCPC_def or_default_def foldl_map)

lemma recommendations_value:
  assumes "c \<noteq> []" and "castObjectId e c = Some i" and "failure st = None"
    and "recent = limit 7 (sortByDate e Descending
                            (filter (\<lambda>r. campaignId r = i) (analytics_docs st)))"
  shows "fst (getRecommendations e (Some c) st) =
     Inr (if recent = [] then [''No recent analytics data available for this campaign.'']
          else if js_gt (averageCPC recent) (Num 2)
          then [''Campaign '' @ c @ '' has a high average CPC of $'' @
                toFixed e (averageCPC recent) @
                ''. \<newline>       Consider refining keywords or targeting to reduce costs.'']
          else [''Campaign '' @ c @ '' is performing well with an average CPC of $'' @
                toFixed e (averageCPC recent) @
                ''. \<newline>       Consider increasing budget or expanding audience.''])"
  using assms
  by (simp add: getRecommendations_def truthy_def recent_find_value interpolate_def Let_def)

text \<open>
  C3. For a campaign identifier with at least one analytics record, on a store that
  answers and sorts, \<open>getRecommendations\<close> returns a one-element array. Its string embeds
  the average CPC: the unweighted mean, taken in the arithmetic of the language over the
  n most recent records of the campaign (n between 1 and 7, in descending order of date),
  of cost divided by clicks with a zero click count replaced by 1, which is the larger of
  clicks and 1 when the click count is a natural number. The string is the high-CPC one
  exactly when the average is strictly above 2; at exactly 2 it is the performing-well
  one.
\<close>

theorem getRecommendations_average:
  assumes "c \<noteq> []" and "castObjectId e c = Some i" and "failure st = None"
    and "camp = filter (\<lambda>r. campaignId r = i) (analytics_docs st)"
    and "camp \<noteq> []"
    and "sorts e Descending camp"
    and "recent = limit 7 (sortByDate e Descending camp)"
    and "avg = js_div
                 (foldl js_add (Num 0)
                    (map (\<lambda>r. js_div (cost r)
                                 (if clicks r = Num 0 \<or> clicks r = NaN then Num 1 else clicks r))
                       recent))
                 (Num (of_nat (length recent)))"
  shows "length recent = min 7 (length camp) \<and> 1 \<le> length recent \<and> length recent \<le> 7 \<and>
         mset recent \<subseteq># mset camp \<and>
         sorted_wrt (\<lambda>a b. date b \<le> date a) recent \<and>
         (\<forall>old \<in># mset camp - mset recent. \<forall>r \<in> set recent. date old \<le> date r) \<and>
         (\<forall>r \<in> set recent. \<forall>n. clicks r = Num (of_nat n) \<longrightarrow>
            (if clicks r = Num 0 \<or> clicks r = NaN then Num 1 else clicks r)
              = Num (of_nat (max n 1))) \<and>
         fst (getRecommendations e (Some c) st) =
           Inr [if js_gt avg (Num 2)
                then ''Campaign '' @ c @ '' has a high average CPC of $'' @ toFixed e avg @
                     ''. \<newline>       Consider refining keywords or targeting to reduce costs.''
                else ''Campaign '' @ c @ '' is performing well with an average CPC of $'' @
                     toFixed e avg @
                     ''. \<newline>       Consider increasing budget or expanding audience.''] \<and>
         (avg = Num 2 \<longrightarrow>
            fst (getRecommendations e (Some c) st) =
              Inr [''Campaign '' @ c @ '' is performing well with an average CPC of $'' @
                   toFixed e (Num 2) @
                   ''. \<newline>       Consider increasing budget or expanding audience.''])"
proof -
  note props = recent_properties [OF assms(6,7)]
  from props(1) \<open>camp \<noteq> []\<close> have bounds: "1 \<le> length recent" "length recent \<le> 7"
    by (simp_all add: Suc_le_eq)
  have larger: "\<forall>r \<in> set recent. \<forall>n. clicks r = Num (of_nat n) \<longrightarrow>
            (if clicks r = Num 0 \<or> clicks r = NaN then Num 1 else clicks r)
              = Num (of_nat (max n 1))"
    by (auto simp: max_def)
  have avg: "avg = averageCPC recent"
    by (simp add: assms(8) averageCPC_unfold)
  from bounds have "recent \<noteq> []" by auto
  then have result: "fst (getRecommendations e (Some c) st) =
           Inr [if js_gt avg (Num 2)
                then ''Campaign '' @ c @ '' has a high average CPC of $'' @ toFixed e avg @
                     ''. \<newline>       Consider refining keywords or targeting to reduce costs.''
                else ''Campaign '' @ c @ '' is performing well with an average CPC of $'' @
                     toFixed e avg @
                     ''. \<newline>       Consider increasing budget or expanding audience.'']"
    using recommendations_value [OF assms(1,2,3), of recent] assms(4,7) avg by simp
  then have boundary: "fst (getRecommendations e (Some c) st) =
              Inr [''Campaign '' @ c @ '' is performing well with an average CPC of $'' @
                   toFixed e (Num 2) @
                   ''. \<newline>       Consider increasing budget or expanding audience.'']"
    if "avg = Num 2"
    using that by simp
  from props bounds larger result boundary show ?thesis by blast
qed

lemma example_sorts: "sorts example_env d xs"
proof (cases d)
  case Ascending
  have "sorted (map date (sort_key date xs))" by simp
  then have "sorted_wrt (\<lambda>a b. date a \<le> date b) (sort_key date xs)"
    by (simp only: sorted_map)
  with Ascending show ?thesis
    by (simp add: sorts_def example_env_def example_sort_def)
next
  case Descending
  have "sorted (map (\<lambda>r. - date r) (sort_key (\<lambda>r. - date r) xs))" by simp
  then have "sorted_wrt (\<lambda>a b. - date a \<le> - date b) (sort_key (\<lambda>r. - date r) xs)"
    by (simp only: sorted_map)
  then have "sorted_wrt (\<lambda>a b. date b \<le> date a) (sort_key (\<lambda>r. - date r) xs)"
    by simp
  with Descending show ?thesis
    by (simp add: sorts_def example_env_def example_sort_def)
qed

lemma example_cast_ids:
  "castObjectId example_env id_c1 = Some (ObjectId id_c1)"
  "castObjectId example_env id_c2 = Some (ObjectId id_c2)"
  "castObjectId example_env id_c3 = Some (ObjectId id_c3)"
  "castObjectId example_env ''c9'' = None"
  by (simp_all add: example_env_def example_cast_def id_c1_def id_c2_def id_c3_def)

text \<open>
  The campaign of eight records: the seven most recent have a cost per click of exactly 2
  (the record without clicks counted as 1 click), the oldest, of 100, is left out; the
  average is exactly 2 and the performing-well string is returned. The campaign of three
  records with costs per click 1, 10/3 and 5/3: their mean in binary64 is
  2.0000000000000004, above the threshold, shown as 2.00, and the high-CPC string is
  returned.
\<close>

theorem getRecommendations_average_witness:
  "id_c2 \<noteq> [] \<and> castObjectId example_env id_c2 = Some (ObjectId id_c2) \<and>
   failure week_store = None \<and>
   filter (\<lambda>r. campaignId r = ObjectId id_c2) (analytics_docs week_store) \<noteq> [] \<and>
   sorts example_env Descending
     (filter (\<lambda>r. campaignId r = ObjectId id_c2) (analytics_docs week_store)) \<and>
   fst (getRecommendations example_env (Some id_c2) week_store) =
     Inr [''Campaign 65a0000000000000000000c2 is performing well with an average CPC of $2.00'' @
          ''. \<newline>       Consider increasing budget or expanding audience.''] \<and>
   fst (getRecommendations example_env (Some id_c3) thirds_store) =
     Inr [''Campaign 65a0000000000000000000c3 has a high average CPC of $2.00'' @
          ''. \<newline>       Consider refining keywords or targeting to reduce costs.'']"
proof -
  let ?camp2 = "filter (\<lambda>r. campaignId r = ObjectId id_c2) (analytics_docs week_store)"
  let ?camp3 = "filter (\<lambda>r. campaignId r = ObjectId id_c3) (analytics_docs thirds_store)"
  let ?cpc = "\<lambda>r. js_div (cost r) (if clicks r = Num 0 \<or> clicks r = NaN then Num 1 else clicks r)"
  let ?avg = "\<lambda>recent. js_div (foldl js_add (Num 0) (map ?cpc recent))
                         (Num (of_nat (length recent)))"
  have name2: "id_c2 \<noteq> []" and name3: "id_c3 \<noteq> []"
    by (simp_all add: id_c2_def id_c3_def)
  have up2: "failure week_store = None" and up3: "failure thirds_store = None"
    by (simp_all add: week_store_def thirds_store_def)
  have some2: "?camp2 \<noteq> []" and some3: "?camp3 \<noteq> []"
    by (simp_all add: week_store_def week_docs_def thirds_store_def thirds_docs_def
        example_record_def)
  have avg2: "?avg (limit 7 (sortByDate example_env Descending ?camp2)) = Num 2"
    by (simp add: limit_def example_env_def example_sort_def week_store_def week_docs_def
        example_record_def to_double_exact)
  have avg3: "?avg (limit 7 (sortByDate example_env Descending ?camp3))
                = Num (4503599627370497 / 2251799813685248)"
    by code_simp
  have above: "js_gt (Num (4503599627370497 / 2251799813685248)) (Num 2)"
    by simp
  have shown2: "toFixed example_env (Num 2) = ''2.00''"
    and shown3: "toFixed example_env (Num (4503599627370497 / 2251799813685248)) = ''2.00''"
    by code_simp+
  from getRecommendations_average
    [OF name2 example_cast_ids(2) up2 refl some2 example_sorts refl refl] avg2 shown2
  have "fst (getRecommendations example_env (Some id_c2) week_store) =
     Inr [''Campaign 65a0000000000000000000c2 is performing well with an average CPC of $2.00'' @
          ''. \<newline>       Consider increasing budget or expanding audience.'']"
    by (simp add: id_c2_def)
  moreover
  from getRecommendations_average
    [OF name3 example_cast_ids(3) up3 refl some3 example_sorts refl refl] avg3 above shown3
  have "fst (getRecommendations example_env (Some id_c3) thirds_store) =
     Inr [''Campaign 65a0000000000000000000c3 has a high average CPC of $2.00'' @
          ''. \<newline>       Consider refining keywords or targeting to reduce costs.'']"
    by (simp add: id_c3_def)
  ultimately show ?thesis
    using name2 example_cast_ids(2) up2 some2 example_sorts by blast
qed

text \<open>
  The seven records with clicks 1, 2, 0, 1, 1, 1, 1 and cost 2 each: the costs per click
  are 2, 1, 2, 2, 2, 2, 2, their sum is 13 and the mean is the binary64 value nearest to
  13/7, shown as 1.86, below the threshold.
\<close>

lemma getRecommendations_sevens:
  "averageCPC (limit 7 (sortByDate example_env Descending sevens_docs))
     = Num (4181913939701175 / 2251799813685248) \<and>
   fst (getRecommendations example_env (Some id_c2) sevens_store) =
     Inr [''Campaign 65a0000000000000000000c2 is performing well with an average CPC of $1.86'' @
          ''. \<newline>       Consider increasing budget or expanding audience.'']"
proof -
  let ?recent = "limit 7 (sortByDate example_env Descending
                   (filter (\<lambda>r. campaignId r = ObjectId id_c2) (analytics_docs sevens_store)))"
  have name: "id_c2 \<noteq> []" by (simp add: id_c2_def)
  have up: "failure sevens_store = None" by (simp add: sevens_store_def)
  have mean: "js_div (Num 13) (Num 7) = Num (4181913939701175 / 2251799813685248)"
    by code_simp
  have same: "?recent = limit 7 (sortByDate example_env Descending sevens_docs)"
    by (simp add: sevens_store_def sevens_docs_def example_record_def)
  have avg: "averageCPC (limit 7 (sortByDate example_env Descending sevens_docs))
               = Num (4181913939701175 / 2251799813685248)"
    using mean
    by (simp add: averageCPC_def limit_def example_env_def example_sort_def sevens_docs_def
        example_record_def or_default_def js_add_exact js_div_exact
        del: js_add.simps js_div.simps)
  have shown: "toFixed example_env (Num (4181913939701175 / 2251799813685248)) = ''1.86''"
    by code_simp
  have some: "limit 7 (sortByDate example_env Descending sevens_docs) \<noteq> []"
    by (simp add: limit_def example_env_def example_sort_def sevens_docs_def example_record_def)
  from recommendations_value [OF name example_cast_ids(2) up refl] same avg shown some
  show ?thesis
    by (simp add: id_c2_def)
qed

text \<open>
  C6 (amended). For a campaign identifier that is an ObjectId and has no analytics
  record, on a store that answers and sorts, \<open>getRecommendations\<close> returns a one-element
  array holding the fixed no-data string.
\<close>

theorem getRecommendations_no_data:
  assumes "c \<noteq> []" and "castObjectId e c = Some i" and "failure st = None"
    and "filter (\<lambda>r. campaignId r = i) (analytics_docs st) = []"
    and "sorts e Descending []"
  shows "fst (getRecommendations e (Some c) st) =
           Inr [''No recent analytics data available for this campaign.'']"
proof -
  from assms(5) have "sortByDate e Descending [] = []"
    by (simp add: sorts_def)
  with recommendations_value [OF assms(1,2,3) refl] assms(4) show ?thesis
    by (simp add: limit_def)
qed

theorem getRecommendations_no_data_witness:
  "id_c3 \<noteq> [] \<and> castObjectId example_env id_c3 = Some (ObjectId id_c3) \<and>
   failure example_store = None \<and>
   filter (\<lambda>r. campaignId r = ObjectId id_c3) (analytics_docs example_store) = [] \<and>
   sorts example_env Descending [] \<and>
   fst (getRecommendations example_env (Some id_c3) example_store) =
     Inr [''No recent analytics data available for this campaign.'']"
proof -
  have name: "id_c3 \<noteq> []" by (simp add: id_c3_def)
  have up: "failure example_store = None"
    by (simp add: example_store_def)
  have none: "filter (\<lambda>r. campaignId r = ObjectId id_c3) (analytics_docs example_store) = []"
    by (simp add: example_store_def example_docs_def example_record_def
        id_c1_def id_c2_def id_c3_def)
  from getRecommendations_no_data [OF name example_cast_ids(3) up none example_sorts]
    name example_cast_ids(3) up none example_sorts [of Descending "[]"]
  show ?thesis by simp
qed

text \<open>
  C6 stated for every identifier with no record fails for a non-empty string that is
  not an ObjectId: the cast of the filter raises an error.
\<close>

theorem getRecommendations_no_data_counterexample:
  "''c9'' \<noteq> [] \<and> castObjectId example_env ''c9'' = None \<and>
   fst (getRecommendations example_env (Some ''c9'') example_store)
     = Inl (CastError ''campaignId'') \<and>
   fst (getRecommendations example_env (Some ''c9'') example_store)
     \<noteq> Inr [''No recent analytics data available for this campaign.'']"
  by (simp add: getRecommendations_def truthy_def recent_find_fails example_cast_ids)

section \<open>Campaign series\<close>

text \<open>
  C7 (amended). For a non-empty campaign identifier that is an ObjectId and a date range
  whose bounds, when both are given, are dates, on a store that answers and sorts,
  \<open>getCampaignAnalytics\<close> returns all the records of the campaign (within the date range
  when both bounds are given), each one as it is stored, in ascending order of date.
\<close>

theorem getCampaignAnalytics_sorted:
  assumes "c \<noteq> []" and "p_campaignId ps = Some c" and "castObjectId e c = Some i"
    and "bounds_parse e (p_start ps) (p_end ps)"
    and "failure st = None"
    and "sel = filter (\<lambda>r. campaignId r = i \<and> in_range e (p_start ps) (p_end ps) r)
                 (analytics_docs st)"
    and "sorts e Ascending sel"
  shows "\<exists>series.
           fst (getCampaignAnalytics e ps st) = Inr (Some series) \<and>
           sorted (map date series) \<and>
           mset series = mset sel"
proof -
  have "fst (getCampaignAnalytics e ps st) = Inr (Some (sortByDate e Ascending sel))"
    using assms(1,2,6) campaign_find_value [OF assms(3,4,5)]
    by (simp add: getCampaignAnalytics_def truthy_def)
  moreover from assms(7) have "sorted (map date (sortByDate e Ascending sel))"
    and "mset (sortByDate e Ascending sel) = mset sel"
    by (simp_all add: sorts_def sorted_map)
  ultimately show ?thesis by blast
qed

text \<open>
  The first campaign in January 2024: of its four records the three of January come
  back, stored in the order 3rd, 1st, 2nd and returned in the order 1st, 2nd, 3rd.
\<close>

theorem getCampaignAnalytics_sorted_witness:
  "id_c1 \<noteq> [] \<and> p_campaignId (january\<lparr>p_campaignId := Some id_c1\<rparr>) = Some id_c1 \<and>
   castObjectId example_env id_c1 = Some (ObjectId id_c1) \<and>
   bounds_parse example_env (p_start january) (p_end january) \<and>
   failure example_store = None \<and>
   filter (\<lambda>r. campaignId r = ObjectId id_c1 \<and>
                in_range example_env (p_start january) (p_end january) r)
     (analytics_docs example_store)
     = [example_record id_c1 (Some id_co1) 1704240000000 ''Facebook'' 100 1 0 2,
        example_record id_c1 (Some id_co1) 1704067200000 ''GoogleAds'' 100 2 0 2,
        example_record id_c1 (Some id_co2) 1704153600000 ''Facebook'' 100 0 0 2] \<and>
   fst (getCampaignAnalytics example_env (january\<lparr>p_campaignId := Some id_c1\<rparr>) example_store)
     = Inr (Some [example_record id_c1 (Some id_co1) 1704067200000 ''GoogleAds'' 100 2 0 2,
                  example_record id_c1 (Some id_co2) 1704153600000 ''Facebook'' 100 0 0 2,
                  example_record id_c1 (Some id_co1) 1704240000000 ''Facebook'' 100 1 0 2])"
proof -
  let ?ps = "january\<lparr>p_campaignId := Some id_c1\<rparr>"
  let ?sel = "filter (\<lambda>r. campaignId r = ObjectId id_c1 \<and>
                in_range example_env (p_start january) (p_end january) r)
                (analytics_docs example_store)"
  let ?sorted = "[example_record id_c1 (Some id_co1) 1704067200000 ''GoogleAds'' 100 2 0 2,
                  example_record id_c1 (Some id_co2) 1704153600000 ''Facebook'' 100 0 0 2,
                  example_record id_c1 (Some id_co1) 1704240000000 ''Facebook'' 100 1 0 2]"
  have name: "id_c1 \<noteq> []" by (simp add: id_c1_def)
  have given: "p_campaignId ?ps = Some id_c1" by simp
  have dates: "bounds_parse example_env (p_start january) (p_end january)"
    by (simp add: bounds_parse_def january_def no_params_def example_env_def example_newDate_def)
  have dates': "bounds_parse example_env (p_start ?ps) (p_end ?ps)"
    using dates by simp
  have up: "failure example_store = None"
    by (simp add: example_store_def)
  have sel: "?sel =
       [example_record id_c1 (Some id_co1) 1704240000000 ''Facebook'' 100 1 0 2,
        example_record id_c1 (Some id_co1) 1704067200000 ''GoogleAds'' 100 2 0 2,
        example_record id_c1 (Some id_co2) 1704153600000 ''Facebook'' 100 0 0 2]"
    by (simp add: in_range_def january_def no_params_def example_env_def example_newDate_def
        example_store_def example_docs_def example_record_def id_c1_def id_c2_def)
  have sel': "?sel = filter (\<lambda>r. campaignId r = ObjectId id_c1 \<and>
                in_range example_env (p_start ?ps) (p_end ?ps) r) (analytics_docs example_store)"
    by simp
  from getCampaignAnalytics_sorted
    [OF name given example_cast_ids(1) dates' up sel' example_sorts]
  obtain series where
    result: "fst (getCampaignAnalytics example_env ?ps example_store) = Inr (Some series)"
    and ordered: "sorted (map date series)" and same: "mset series = mset ?sel"
    by blast
  have "fst (getCampaignAnalytics example_env ?ps example_store)
          = Inr (Some (sortByDate example_env Ascending ?sel))"
    using name campaign_find_value [OF example_cast_ids(1) dates up]
    by (simp add: getCampaignAnalytics_def truthy_def)
  also have "sortByDate example_env Ascending ?sel = ?sorted"
    unfolding sel by (simp add: example_env_def example_sort_def example_record_def)
  finally have "fst (getCampaignAnalytics example_env ?ps example_store) = Inr (Some ?sorted)" .
  with result ordered same name given dates up sel example_cast_ids(1)
  show ?thesis by simp
qed

text \<open>
  C7 stated for every non-empty identifier fails for a string that is not an ObjectId,
  and for a well-formed identifier with a bound that is not a date: the cast of the
  filter raises an error.
\<close>

theorem getCampaignAnalytics_sorted_counterexample:
  "''c9'' \<noteq> [] \<and> castObjectId example_env ''c9'' = None \<and>
   fst (getCampaignAnalytics example_env (january\<lparr>p_campaignId := Some ''c9''\<rparr>) example_store)
     = Inl (CastError ''campaignId'') \<and>
   fst (getCampaignAnalytics example_env
          (no_params\<lparr>p_campaignId := Some id_c1, p_start := Some ''yesterday'',
                     p_end := Some ''2024-01-31''\<rparr>) example_store)
     = Inl (CastError ''date'')"
proof -
  have "fst (getCampaignAnalytics example_env (january\<lparr>p_campaignId := Some ''c9''\<rparr>) example_store)
     = Inl (CastError ''campaignId'')"
    by (simp add: getCampaignAnalytics_def truthy_def campaign_find_fails example_cast_ids)
  moreover have "fst (getCampaignAnalytics example_env
          (no_params\<lparr>p_campaignId := Some id_c1, p_start := Some ''yesterday'',
                     p_end := Some ''2024-01-31''\<rparr>) example_store)
     = Inl (CastError ''date'')"
    using example_cast_ids(1)
    by (simp add: getCampaignAnalytics_def truthy_def id_c1_def no_params_def with_date_def
        empty_query_def Analytics_find_def cast_filter_def cast_id_def cast_date_def
        example_env_def example_newDate_def)
  ultimately show ?thesis
    by (simp add: example_cast_ids)
qed

end
